theory Spec2Isabelle
  imports Main
begin

section \<open>Python values used by the video pipeline\<close>

text \<open>
  The functions of the repository are Python. Strings are modelled as \<open>string\<close> over
  ASCII; exceptions are values of \<open>py_error\<close>, and a function that can raise returns
  \<open>py_error + 'a\<close> with \<open>Inl\<close> for the raised exception.
\<close>

datatype py_error =
    ValueError string
  | IndexError
  | AttributeError string
  | ActivityFailed string
  | RuntimeError string

text \<open>
  \<open>ActivityFailed\<close> is the exception of a failed activity, \<open>RuntimeError\<close> any other
  failure of a library call. \<open>str_of_error\<close> is \<open>str(e)\<close>.
\<close>

fun str_of_error :: "py_error \<Rightarrow> string" where
  "str_of_error (ValueError m) = m"
| "str_of_error IndexError = ''list index out of range''"
| "str_of_error (AttributeError m) = m"
| "str_of_error (ActivityFailed m) = m"
| "str_of_error (RuntimeError m) = m"

subsection \<open>String methods\<close>

text \<open>\<open>s.split(c)\<close> for a one-character separator: every occurrence of \<open>c\<close> ends a part.\<close>

fun split_on :: "char \<Rightarrow> string \<Rightarrow> string list" where
  "split_on c [] = [] # []"
| "split_on c (x # xs) =
     (if x = c then [] # split_on c xs
      else (case split_on c xs of
              [] \<Rightarrow> [x] # []
            | p # ps \<Rightarrow> (x # p) # ps))"

text \<open>\<open>c.join(parts)\<close>, used only to state what \<open>split_on\<close> computes.\<close>

fun join_with :: "char \<Rightarrow> string list \<Rightarrow> string" where
  "join_with c [] = []"
| "join_with c [p] = p"
| "join_with c (p # q # ps) = p @ c # join_with c (q # ps)"

text \<open>\<open>xs.index(v)\<close>: the first position of \<open>v\<close>; \<open>None\<close> stands for the \<open>ValueError\<close>.\<close>

fun index_of :: "'a \<Rightarrow> 'a list \<Rightarrow> nat option" where
  "index_of v [] = None"
| "index_of v (x # xs) = (if x = v then Some 0 else map_option Suc (index_of v xs))"

text \<open>\<open>s.lower()\<close> on ASCII: the letters A to Z move to a to z, every other byte stays.\<close>

definition lower_char :: "char \<Rightarrow> char" where
  "lower_char c =
     (let n = (of_char c :: nat) in if 65 \<le> n \<and> n \<le> 90 then char_of (n + 32) else c)"

definition lower :: "string \<Rightarrow> string" where
  "lower s = map lower_char s"

text \<open>\<open>s.endswith(ext)\<close>.\<close>

definition endswith :: "string \<Rightarrow> string \<Rightarrow> bool" where
  "endswith s ext = (length ext \<le> length s \<and> drop (length s - length ext) s = ext)"

section \<open>VideoProcessingStarter\<close>

subsection \<open>extract\_container\_name\<close>

text \<open>
  The body of the \<open>try\<close> block: \<open>parts.index("containers")\<close> raises \<open>ValueError\<close> when the
  segment is missing; the read \<open>parts[container_index]\<close> is guarded by the length test.
\<close>

definition extract_container_name_try :: "string \<Rightarrow> py_error + string" where
  "extract_container_name_try subject =
     (let parts = split_on CHR ''/'' subject in
      case index_of ''containers'' parts of
        None \<Rightarrow> Inl (ValueError ''containers is not in list'')
      | Some i \<Rightarrow>
          (let container_index = i + 1 in
           if container_index < length parts then Inr (parts ! container_index)
           else Inr []))"

text \<open>\<open>except (ValueError, IndexError): return ""\<close>; any other exception propagates.\<close>

definition extract_container_name :: "string \<Rightarrow> py_error + string" where
  "extract_container_name subject =
     (case extract_container_name_try subject of
        Inr r \<Rightarrow> Inr r
      | Inl (ValueError m) \<Rightarrow> Inr []
      | Inl IndexError \<Rightarrow> Inr []
      | Inl e \<Rightarrow> Inl e)"

subsection \<open>is\_video\_file\<close>

definition video_content_types :: "string list" where
  "video_content_types =
     [''video/mp4'', ''video/avi'', ''video/mov'', ''video/wmv'', ''video/flv'',
      ''video/webm'', ''video/quicktime'', ''video/x-msvideo'']"

definition video_extensions :: "string list" where
  "video_extensions = [''.mp4'', ''.avi'', ''.mov'', ''.wmv'', ''.flv'', ''.webm'', ''.mkv'']"

text \<open>
  \<open>blob_name\<close> is \<open>None\<close> when the event has no subject, so it is a \<open>string option\<close>.
  An empty string is falsy, as in Python.
\<close>

definition is_video_file :: "string \<Rightarrow> string option \<Rightarrow> bool" where
  "is_video_file content_type blob_name =
     (if content_type \<noteq> [] \<and> lower content_type \<in> set video_content_types then True
      else (case blob_name of
              None \<Rightarrow> False
            | Some name \<Rightarrow>
                (if name \<noteq> [] then list_ex (\<lambda>ext. endswith (lower name) ext) video_extensions
                 else False)))"

section \<open>JSON payloads and dictionaries\<close>

text \<open>
  Activity inputs and outputs, the trigger event and the orchestration input are JSON-like
  Python values. Numbers are integers here (no claim reads a float out of a payload). An
  object is an association list in insertion order; a Python dict has no duplicate keys.
\<close>

datatype json =
    JNull
  | JBool bool
  | JInt int
  | JStr string
  | JList "json list"
  | JObj "(string \<times> json) list"

fun type_name :: "json \<Rightarrow> string" where
  "type_name JNull = ''NoneType''"
| "type_name (JBool b) = ''bool''"
| "type_name (JInt n) = ''int''"
| "type_name (JStr s) = ''str''"
| "type_name (JList xs) = ''list''"
| "type_name (JObj kvs) = ''dict''"

definition no_attribute :: "json \<Rightarrow> string \<Rightarrow> py_error" where
  "no_attribute v attr =
     AttributeError ([CHR 39] @ type_name v @ [CHR 39] @ '' object has no attribute ''
                     @ [CHR 39] @ attr @ [CHR 39])"

text \<open>Python truthiness of a value (\<open>if v:\<close>).\<close>

fun truthy :: "json \<Rightarrow> bool" where
  "truthy JNull = False"
| "truthy (JBool b) = b"
| "truthy (JInt n) = (n \<noteq> 0)"
| "truthy (JStr s) = (s \<noteq> [])"
| "truthy (JList xs) = (xs \<noteq> [])"
| "truthy (JObj kvs) = (kvs \<noteq> [])"

text \<open>\<open>v.get(key, default)\<close>: only a dict has the method; on any other value the call raises.\<close>

fun py_get :: "json \<Rightarrow> string \<Rightarrow> json \<Rightarrow> py_error + json" where
  "py_get (JObj kvs) key dflt = Inr (case map_of kvs key of None \<Rightarrow> dflt | Some v \<Rightarrow> v)"
| "py_get v key dflt = Inl (no_attribute v ''get'')"

text \<open>\<open>d[key] = v\<close> on an insertion-ordered dict: an existing key keeps its place.\<close>

fun dict_set :: "('k \<times> 'v) list \<Rightarrow> 'k \<Rightarrow> 'v \<Rightarrow> ('k \<times> 'v) list" where
  "dict_set [] k v = [(k, v)]"
| "dict_set ((k', v') # kvs) k v =
     (if k' = k then (k, v) # kvs else (k', v') # dict_set kvs k v)"

section \<open>VideoProcessingOrchestrator\<close>

text \<open>
  An instant is a point on an integer time line (a Python \<open>datetime\<close> has microsecond
  resolution); \<open>isoformat\<close> followed by \<open>fromisoformat\<close> returns the same instant, so the
  model keeps the instant where the code keeps its ISO string, and a duration is a difference
  of instants.
\<close>

type_synonym instant = int

record step_record =
  step_status :: string
  step_result :: json
  step_timestamp :: instant

record error_record =
  err_error :: string
  err_timestamp :: instant
  err_step :: string

text \<open>
  The dict \<open>orchestration_result\<close>. The keys \<open>end_time\<close> and
  \<open>processing_duration_seconds\<close> are absent until the code stores them.
\<close>

record orchestration_result =
  video_info :: json
  start_time :: instant
  status :: string
  steps :: "(string \<times> step_record) list"
  errors :: "error_record list"
  end_time :: "instant option"
  processing_duration_seconds :: "instant option"

text \<open>
  The orchestration context: the input of the instance, and the replay-safe clock
  \<open>current_utc_datetime\<close>. The clock only moves when a task result is delivered to the
  orchestrator, so it is read as a function of the number of results delivered so far.
\<close>

record orchestration_context =
  get_input :: json
  current_utc_datetime :: "nat \<Rightarrow> instant"

text \<open>
  The orchestrator is a Python generator. A generator is either suspended at
  \<open>yield context.call_activity(name, payload)\<close>, waiting for the result of the activity
  (a value, or an exception raised at the \<open>yield\<close>), or it has returned, or it has raised.
  \<open>Yield\<close> also carries the value of the local variable \<open>orchestration_result\<close> at the
  moment of suspension.
\<close>

datatype gen =
    Yield orchestration_result string json "py_error + json \<Rightarrow> gen"
  | Return orchestration_result
  | Raise py_error

text \<open>The record stored under \<open>orchestration_result["steps"][...]\<close> after a stage.\<close>

definition completed_step :: "orchestration_context \<Rightarrow> nat \<Rightarrow> json \<Rightarrow> step_record" where
  "completed_step ctx n result =
     \<lparr>step_status = ''completed'', step_result = result,
      step_timestamp = current_utc_datetime ctx n\<rparr>"

text \<open>The \<open>except Exception as e\<close> block, entered after \<open>n\<close> results were delivered.\<close>

definition on_exception :: "orchestration_context \<Rightarrow> nat \<Rightarrow> orchestration_result \<Rightarrow> py_error \<Rightarrow> orchestration_result" where
  "on_exception ctx n r e =
     r\<lparr>errors := errors r @
          [\<lparr>err_error = str_of_error e, err_timestamp = current_utc_datetime ctx n,
            err_step = ''orchestration''\<rparr>],
       status := ''failed'',
       end_time := Some (current_utc_datetime ctx n)\<rparr>"

text \<open>
  \<open>orchestrator_function\<close>. The first statement, \<open>video_info.get('blob_name')\<close> in the log
  line, is outside the \<open>try\<close> block: an input that is not a dict makes the function raise
  before any activity is called. Everything else is inside the \<open>try\<close>.
\<close>

definition orchestrator_function :: "orchestration_context \<Rightarrow> gen" where
  "orchestrator_function ctx =
     (let video_info = get_input ctx in
      case py_get video_info ''blob_name'' JNull of
        Inl e \<Rightarrow> Raise e
      | Inr _ \<Rightarrow>
     (let r0 = \<lparr>video_info = video_info, start_time = current_utc_datetime ctx 0,
                status = ''processing'', steps = [], errors = [],
                end_time = None, processing_duration_seconds = None\<rparr> in
      Yield r0 ''ExtractVideoMetadata'' video_info (\<lambda>res1.
      case res1 of Inl e \<Rightarrow> Return (on_exception ctx 1 r0 e) | Inr metadata_result \<Rightarrow>
     (let r1 = r0\<lparr>steps := dict_set (steps r0) ''metadata''
                          (completed_step ctx 1 metadata_result)\<rparr> in
      Yield r1 ''AnalyzeVideoContent''
        (JObj [(''video_info'', video_info), (''metadata'', metadata_result)]) (\<lambda>res2.
      case res2 of Inl e \<Rightarrow> Return (on_exception ctx 2 r1 e) | Inr analysis_result \<Rightarrow>
     (let r2 = r1\<lparr>steps := dict_set (steps r1) ''analysis''
                          (completed_step ctx 2 analysis_result)\<rparr> in
      Yield r2 ''GenerateEmbeddings''
        (JObj [(''video_info'', video_info), (''analysis'', analysis_result),
               (''metadata'', metadata_result)]) (\<lambda>res3.
      case res3 of Inl e \<Rightarrow> Return (on_exception ctx 3 r2 e) | Inr embeddings_result \<Rightarrow>
     (let r3 = r2\<lparr>steps := dict_set (steps r2) ''embeddings''
                          (completed_step ctx 3 embeddings_result)\<rparr> in
      Yield r3 ''StoreInAzureSearch''
        (JObj [(''video_info'', video_info), (''metadata'', metadata_result),
               (''analysis'', analysis_result), (''embeddings'', embeddings_result)]) (\<lambda>res4.
      case res4 of Inl e \<Rightarrow> Return (on_exception ctx 4 r3 e) | Inr search_result \<Rightarrow>
     (let r4 = r3\<lparr>steps := dict_set (steps r3) ''search_storage''
                          (completed_step ctx 4 search_result)\<rparr> in
      case py_get search_result ''document_id'' JNull of
        Inl e \<Rightarrow> Return (on_exception ctx 4 r4 e)
      | Inr document_id \<Rightarrow>
      Yield r4 ''GenerateVideoInsights''
        (JObj [(''video_info'', video_info), (''metadata'', metadata_result),
               (''analysis'', analysis_result), (''search_document_id'', document_id)]) (\<lambda>res5.
      case res5 of Inl e \<Rightarrow> Return (on_exception ctx 5 r4 e) | Inr insights_result \<Rightarrow>
     (let r5 = r4\<lparr>steps := dict_set (steps r4) ''insights''
                          (completed_step ctx 5 insights_result)\<rparr>;
          r6 = r5\<lparr>status := ''completed''\<rparr>;
          r7 = r6\<lparr>end_time := Some (current_utc_datetime ctx 5)\<rparr>
      in Return (r7\<lparr>processing_duration_seconds :=
                       Some (the (end_time r7) - start_time r7)\<rparr>)))))))))))))"

subsection \<open>Running the generator\<close>

text \<open>
  The activity invoker maps an activity name and its input to the activity's output, or to
  the exception of a failed activity. A run resumes the generator with the result of each
  activity it yields: \<open>calls\<close> lists the invocations in order, \<open>history\<close> the results
  delivered, \<open>frames\<close> the successive values of \<open>orchestration_result\<close> (at each suspension,
  then at the return) and \<open>outcome\<close> what the orchestrator returns or raises.
\<close>

type_synonym invoker = "string \<Rightarrow> json \<Rightarrow> py_error + json"

primrec calls :: "invoker \<Rightarrow> gen \<Rightarrow> (string \<times> json) list" where
  "calls act (Yield fr name payload k) = (name, payload) # calls act (k (act name payload))"
| "calls act (Return r) = []"
| "calls act (Raise e) = []"

primrec history :: "invoker \<Rightarrow> gen \<Rightarrow> (py_error + json) list" where
  "history act (Yield fr name payload k) = act name payload # history act (k (act name payload))"
| "history act (Return r) = []"
| "history act (Raise e) = []"

primrec frames :: "invoker \<Rightarrow> gen \<Rightarrow> orchestration_result list" where
  "frames act (Yield fr name payload k) = fr # frames act (k (act name payload))"
| "frames act (Return r) = [r]"
| "frames act (Raise e) = []"

primrec outcome :: "invoker \<Rightarrow> gen \<Rightarrow> py_error + orchestration_result" where
  "outcome act (Yield fr name payload k) = outcome act (k (act name payload))"
| "outcome act (Return r) = Inr r"
| "outcome act (Raise e) = Inl e"

subsection \<open>The stage sequence of the specification\<close>

text \<open>
  The five activities in the order of section 4.1 of the specification, and the keys under
  which the orchestrator files their records in \<open>steps\<close>.
\<close>

definition stage_names :: "string list" where
  "stage_names =
     [''ExtractVideoMetadata'', ''AnalyzeVideoContent'', ''GenerateEmbeddings'',
      ''StoreInAzureSearch'', ''GenerateVideoInsights'']"

definition step_names :: "string list" where
  "step_names = [''metadata'', ''analysis'', ''embeddings'', ''search_storage'', ''insights'']"

text \<open>The outputs of the stages that completed, read off the delivered results.\<close>

fun outputs :: "(py_error + json) list \<Rightarrow> json list" where
  "outputs [] = []"
| "outputs (Inl e # rs) = []"
| "outputs (Inr v # rs) = v # outputs rs"

fun is_dict :: "json \<Rightarrow> bool" where
  "is_dict (JObj kvs) = True"
| "is_dict v = False"

fun is_failure :: "py_error + json \<Rightarrow> bool" where
  "is_failure (Inl e) = True"
| "is_failure (Inr v) = False"

text \<open>
  The payload of each stage as the specification lists it, written from the specification
  and compared with the code below: stage 1 receives the input; stage 2 the input and the
  metadata; stage 3 the input, the analysis and the metadata; stage 4 the input, the
  metadata, the analysis and the embeddings; stage 5 the input, the metadata, the analysis
  and the \<open>document_id\<close> field of the search result. The second argument lists the outputs
  of the stages before the one invoked.
\<close>

fun spec_document_id :: "json \<Rightarrow> json" where
  "spec_document_id (JObj kvs) =
     (case map_of kvs ''document_id'' of None \<Rightarrow> JNull | Some v \<Rightarrow> v)"
| "spec_document_id v = JNull"

fun spec_payload :: "json \<Rightarrow> json list \<Rightarrow> json" where
  "spec_payload input [] = input"
| "spec_payload input [metadata] =
     JObj [(''video_info'', input), (''metadata'', metadata)]"
| "spec_payload input [metadata, analysis] =
     JObj [(''video_info'', input), (''analysis'', analysis), (''metadata'', metadata)]"
| "spec_payload input [metadata, analysis, embeddings] =
     JObj [(''video_info'', input), (''metadata'', metadata), (''analysis'', analysis),
           (''embeddings'', embeddings)]"
| "spec_payload input (metadata # analysis # embeddings # search_result # rest) =
     JObj [(''video_info'', input), (''metadata'', metadata), (''analysis'', analysis),
           (''search_document_id'', spec_document_id search_result)]"

subsection \<open>Shorthand for the payloads and for a failed result\<close>

abbreviation payload_analysis :: "json \<Rightarrow> json \<Rightarrow> json" where
  "payload_analysis vi m \<equiv> JObj [(''video_info'', vi), (''metadata'', m)]"

abbreviation payload_embeddings :: "json \<Rightarrow> json \<Rightarrow> json \<Rightarrow> json" where
  "payload_embeddings vi m a \<equiv> JObj [(''video_info'', vi), (''analysis'', a), (''metadata'', m)]"

abbreviation payload_search :: "json \<Rightarrow> json \<Rightarrow> json \<Rightarrow> json \<Rightarrow> json" where
  "payload_search vi m a e \<equiv>
     JObj [(''video_info'', vi), (''metadata'', m), (''analysis'', a), (''embeddings'', e)]"

abbreviation payload_insights :: "json \<Rightarrow> json \<Rightarrow> json \<Rightarrow> json \<Rightarrow> json" where
  "payload_insights vi m a d \<equiv>
     JObj [(''video_info'', vi), (''metadata'', m), (''analysis'', a),
           (''search_document_id'', d)]"

abbreviation failed_after ::
  "orchestration_context \<Rightarrow> json \<Rightarrow> (string \<times> step_record) list \<Rightarrow> nat \<Rightarrow> py_error
     \<Rightarrow> orchestration_result" where
  "failed_after ctx vi stps n e \<equiv>
     \<lparr>video_info = vi, start_time = current_utc_datetime ctx 0, status = ''failed'',
      steps = stps,
      errors = [\<lparr>err_error = str_of_error e, err_timestamp = current_utc_datetime ctx n,
                 err_step = ''orchestration''\<rparr>],
      end_time = Some (current_utc_datetime ctx n), processing_duration_seconds = None\<rparr>"


subsection \<open>Replay\<close>

text \<open>
  Modelled from the spec: the replay of an instance over its recorded history. It is done by
  the workflow host (the Durable Functions runtime), which is not among the sources of the
  repository; the orchestrator itself only yields. Section 4.1 of the specification: before a
  stage is invoked, the recorded history is consulted, and if a result is already recorded
  for that stage it is reused instead of invoking the Activity Invoker again. The history
  \<open>h\<close> lists the recorded results, oldest first; \<open>replay_calls\<close> lists the invocations that
  reach the Activity Invoker, \<open>replay_outcome\<close> is what the orchestrator returns.
\<close>

primrec replay_calls :: "invoker \<Rightarrow> gen \<Rightarrow> (py_error + json) list \<Rightarrow> (string \<times> json) list" where
  "replay_calls act (Yield fr name payload k) h =
     (case h of
        [] \<Rightarrow> (name, payload) # replay_calls act (k (act name payload)) []
      | r # h' \<Rightarrow> replay_calls act (k r) h')"
| "replay_calls act (Return r) h = []"
| "replay_calls act (Raise e) h = []"

text \<open>
  Modelled from the spec: what the orchestrator returns when it is replayed over the
  recorded history \<open>h\<close> (the same missing host, the same rule of section 4.1).
\<close>

primrec replay_outcome :: "invoker \<Rightarrow> gen \<Rightarrow> (py_error + json) list \<Rightarrow> py_error + orchestration_result" where
  "replay_outcome act (Yield fr name payload k) h =
     (case h of
        [] \<Rightarrow> replay_outcome act (k (act name payload)) []
      | r # h' \<Rightarrow> replay_outcome act (k r) h')"
| "replay_outcome act (Return r) h = Inr r"
| "replay_outcome act (Raise e) h = Inl e"

subsection \<open>Concrete runs\<close>

text \<open>
  An instance for the video \<open>demo.mp4\<close> whose clock advances by ten units per delivered
  result, an invoker whose activities all succeed (the search stage returns a document id),
  and one whose third stage fails.
\<close>

definition demo_context :: orchestration_context where
  "demo_context =
     \<lparr>get_input = JObj [(''blob_name'', JStr ''demo.mp4'')],
      current_utc_datetime = (\<lambda>n. 100 + 10 * int n)\<rparr>"

definition stub_invoker :: invoker where
  "stub_invoker name payload =
     (if name = ''StoreInAzureSearch'' then Inr (JObj [(''document_id'', JStr ''doc1'')])
      else Inr (JObj [(''produced_by'', JStr name)]))"

definition stage3_fails :: invoker where
  "stage3_fails name payload =
     (if name = ''GenerateEmbeddings'' then Inl (ActivityFailed ''embedding service down'')
      else stub_invoker name payload)"

section \<open>VideoProcessingStarter: main\<close>

text \<open>Sequencing of statements that can raise: the first exception ends the block.\<close>

definition bind_err :: "py_error + 'a \<Rightarrow> ('a \<Rightarrow> py_error + 'b) \<Rightarrow> py_error + 'b" where
  "bind_err m f = (case m of Inl e \<Rightarrow> Inl e | Inr x \<Rightarrow> f x)"

text \<open>\<open>v.split("/")[-1]\<close>: only a string has \<open>split\<close>; the list of parts is never empty.\<close>

definition py_split_last :: "json \<Rightarrow> py_error + json" where
  "py_split_last v =
     (case v of
        JStr s \<Rightarrow> Inr (JStr (last (split_on CHR ''/'' s)))
      | _ \<Rightarrow> Inl (no_attribute v ''split''))"

text \<open>
  \<open>extract_container_name(v)\<close> on the value read from the event: on a value that is not a
  string, \<open>subject.split\<close> raises \<open>AttributeError\<close>, which the function does not catch.
\<close>

definition extract_container_name_call :: "json \<Rightarrow> py_error + json" where
  "extract_container_name_call v =
     (case v of
        JStr s \<Rightarrow> bind_err (extract_container_name s) (\<lambda>r. Inr (JStr r))
      | _ \<Rightarrow> Inl (no_attribute v ''split''))"

text \<open>The dict \<open>video_info\<close> built from the event, in the order the code evaluates it.\<close>

record video_info_rec =
  vi_blob_url :: json
  vi_blob_name :: json
  vi_container_name :: json
  vi_event_type :: json
  vi_event_time :: json
  vi_content_type :: json
  vi_content_length :: json

definition video_info_json :: "video_info_rec \<Rightarrow> json" where
  "video_info_json v =
     JObj [(''blob_url'', vi_blob_url v), (''blob_name'', vi_blob_name v),
           (''container_name'', vi_container_name v), (''event_type'', vi_event_type v),
           (''event_time'', vi_event_time v), (''content_type'', vi_content_type v),
           (''content_length'', vi_content_length v)]"

definition build_video_info :: "json \<Rightarrow> py_error + video_info_rec" where
  "build_video_info event_data =
     bind_err (py_get event_data ''url'' JNull) (\<lambda>url.
     bind_err (py_get event_data ''subject'' JNull) (\<lambda>subject_test.
     bind_err (if truthy subject_test
               then bind_err (py_get event_data ''subject'' (JStr [])) py_split_last
               else Inr JNull) (\<lambda>name.
     bind_err (py_get event_data ''subject'' (JStr [])) (\<lambda>subject.
     bind_err (extract_container_name_call subject) (\<lambda>container.
     bind_err (py_get event_data ''eventType'' JNull) (\<lambda>etype.
     bind_err (py_get event_data ''eventTime'' JNull) (\<lambda>etime.
     bind_err (py_get event_data ''data'' (JObj [])) (\<lambda>data1.
     bind_err (py_get data1 ''contentType'' (JStr [])) (\<lambda>ctype.
     bind_err (py_get event_data ''data'' (JObj [])) (\<lambda>data2.
     bind_err (py_get data2 ''contentLength'' (JInt 0)) (\<lambda>clength.
     Inr \<lparr>vi_blob_url = url, vi_blob_name = name, vi_container_name = container,
          vi_event_type = etype, vi_event_time = etime, vi_content_type = ctype,
          vi_content_length = clength\<rparr>)))))))))))"

text \<open>
  The call \<open>is_video_file(video_info["vi_content_type"], video_info["vi_blob_name"])\<close> on the
  values of the event. A truthy content type that is not a string has no \<open>lower\<close> and
  raises; a falsy one skips the first test whatever its type, as the empty string does. The
  blob name is \<open>None\<close> or a string by construction.
\<close>

definition is_video_file_call :: "json \<Rightarrow> json \<Rightarrow> py_error + bool" where
  "is_video_file_call ctype name =
     (let blob = (case name of JStr s \<Rightarrow> Some s | _ \<Rightarrow> None) in
      if truthy ctype
      then (case ctype of
              JStr s \<Rightarrow> Inr (is_video_file s blob)
            | _ \<Rightarrow> Inl (no_attribute ctype ''lower''))
      else Inr (is_video_file [] blob))"

definition classify :: "video_info_rec \<Rightarrow> py_error + bool" where
  "classify v = is_video_file_call (vi_content_type v) (vi_blob_name v)"

text \<open>
  What \<open>main\<close> does: \<open>Skipped\<close> is the early \<open>return\<close> for a file that is not a video;
  \<open>Started\<close> says that \<open>start_new\<close> was called with the given input and returned the given
  instance id, after which \<open>main\<close> returns; \<open>Raised\<close> is an exception that \<open>main\<close> logs and
  raises again. The client is the parameter: \<open>Inl\<close> when its constructor raises, otherwise
  its \<open>start_new\<close>.
\<close>

datatype starter_outcome = Skipped | Started string json | Raised py_error

definition starter_main ::
  "json \<Rightarrow> (py_error + (json \<Rightarrow> py_error + string)) \<Rightarrow> starter_outcome" where
  "starter_main event_data client =
     (case build_video_info event_data of
        Inl e \<Rightarrow> Raised e
      | Inr v \<Rightarrow>
          (case classify v of
             Inl e \<Rightarrow> Raised e
           | Inr False \<Rightarrow> Skipped
           | Inr True \<Rightarrow>
               (case client of
                  Inl e \<Rightarrow> Raised e
                | Inr start_new \<Rightarrow>
                    (case start_new (video_info_json v) of
                       Inl e \<Rightarrow> Raised e
                     | Inr instance_id \<Rightarrow> Started instance_id (video_info_json v)))))"

text \<open>Two trigger events: an uploaded image and an uploaded video.\<close>

definition image_event :: json where
  "image_event =
     JObj [(''url'', JStr ''https://account.blob.core.windows.net/videos/pic.png''),
           (''subject'', JStr ''/blobServices/default/containers/videos/blobs/pic.png''),
           (''eventType'', JStr ''Microsoft.Storage.BlobCreated''),
           (''eventTime'', JStr ''2024-01-01T00:00:00Z''),
           (''data'', JObj [(''contentType'', JStr ''image/png''),
                             (''contentLength'', JInt 2048)])]"

definition video_event :: json where
  "video_event =
     JObj [(''url'', JStr ''https://account.blob.core.windows.net/videos/demo.mp4''),
           (''subject'', JStr ''/blobServices/default/containers/videos/blobs/demo.mp4''),
           (''eventType'', JStr ''Microsoft.Storage.BlobCreated''),
           (''eventTime'', JStr ''2024-01-01T00:00:00Z''),
           (''data'', JObj [(''contentType'', JStr ''video/mp4''),
                             (''contentLength'', JInt 12582912)])]"

definition demo_client :: "py_error + (json \<Rightarrow> py_error + string)" where
  "demo_client = Inr (\<lambda>input. Inr ''instance-1'')"

section \<open>VideoProcessingStatus\<close>

text \<open>
  The status object that \<open>client.get_status\<close> returns. \<open>input_\<close> and \<open>output\<close> are JSON
  values or JSON text; the times and the runtime status may be \<open>None\<close>. A history event has
  the attributes the code probes with \<open>hasattr\<close> (\<open>None\<close>: no such attribute) and its
  \<open>str\<close>.
\<close>

record history_event =
  ev_name :: "string option"
  ev_timestamp :: "instant option option"
  ev_event_type :: "string option"
  ev_str :: string

record durable_status =
  ds_input :: json
  ds_output :: json
  ds_created_time :: "instant option"
  ds_last_updated_time :: "instant option"
  ds_runtime_status :: "string option"
  ds_custom_status :: json
  ds_history_events :: "history_event list option"

text \<open>
  The dict that \<open>get_orchestration_status\<close> returns. The times and
  \<open>processing_duration\<close> are Python values that may be \<open>None\<close>; the key
  \<open>execution_history\<close> is only added on request, so \<open>None\<close> there means that the key is
  missing.
\<close>

record history_entry =
  he_name :: string
  he_timestamp :: "instant option"
  he_event_type :: string

record status_view =
  sv_instance_id :: string
  sv_runtime_status :: string
  sv_created_time :: "instant option"
  sv_last_updated_time :: "instant option"
  sv_processing_duration :: "string option"
  sv_video_info :: json
  sv_output :: json
  sv_custom_status :: json
  sv_execution_history :: "history_entry list option"
  sv_management_urls :: "(string \<times> string) list"

text \<open>
  Two library functions are parameters: \<open>loads\<close> is \<open>json.loads\<close> on a string (\<open>None\<close>
  for \<open>JSONDecodeError\<close>), and \<open>fmt\<close> renders the seconds of a duration with one decimal, as
  \<open>f"{duration_seconds:.1f}"\<close> does on the float \<open>total_seconds()\<close>.
\<close>

definition parse_if_str :: "(string \<Rightarrow> json option) \<Rightarrow> json \<Rightarrow> json option" where
  "parse_if_str loads v = (case v of JStr s \<Rightarrow> loads s | _ \<Rightarrow> Some v)"

text \<open>\<open>str(v)\<close> is needed for a string only: nothing else fails to parse.\<close>

definition video_info_of :: "(string \<Rightarrow> json option) \<Rightarrow> json \<Rightarrow> json" where
  "video_info_of loads inp =
     (if truthy inp then
        (case parse_if_str loads inp of
           None \<Rightarrow> JObj [(''video_name'', JStr ''Unable to parse'')]
         | Some input_data \<Rightarrow>
             (case bind_err (py_get input_data ''blob_name'' (JStr ''Unknown'')) (\<lambda>vn.
                   bind_err (py_get input_data ''container_name'' (JStr ''Unknown'')) (\<lambda>cn.
                   bind_err (py_get input_data ''blob_url'' (JStr [])) (\<lambda>bu.
                   Inr (JObj [(''video_name'', vn), (''container_name'', cn),
                              (''blob_url'', bu)])))) of
                Inl e \<Rightarrow> JObj [(''video_name'', JStr ''Unable to parse'')]
              | Inr d \<Rightarrow> d))
      else JObj [])"

definition output_of :: "(string \<Rightarrow> json option) \<Rightarrow> json \<Rightarrow> json" where
  "output_of loads out =
     (if truthy out then
        (case parse_if_str loads out of
           None \<Rightarrow> JObj [(''raw_output'', out)]
         | Some output_data \<Rightarrow> output_data)
      else JObj [])"

definition processing_duration_of ::
  "(int \<Rightarrow> string) \<Rightarrow> instant option \<Rightarrow> instant option \<Rightarrow> string option" where
  "processing_duration_of fmt created updated =
     (case created of
        None \<Rightarrow> None
      | Some c \<Rightarrow>
          (case updated of
             None \<Rightarrow> None
           | Some u \<Rightarrow> (let duration_seconds = u - c in Some (fmt duration_seconds @ '' seconds''))))"

definition history_entry_of :: "history_event \<Rightarrow> history_entry" where
  "history_entry_of ev =
     \<lparr>he_name = (case ev_name ev of Some n \<Rightarrow> n | None \<Rightarrow> ev_str ev),
      he_timestamp = (case ev_timestamp ev of Some (Some t) \<Rightarrow> Some t | _ \<Rightarrow> None),
      he_event_type = (case ev_event_type ev of Some t \<Rightarrow> t | None \<Rightarrow> ''Unknown'')\<rparr>"

text \<open>
  \<open>get_orchestration_status\<close>. A falsy status (here \<open>None\<close>: the instance does not exist)
  raises \<open>ValueError\<close>; the \<open>except Exception\<close> block logs and raises again, so every
  exception reaches the caller unchanged.
\<close>

type_synonym status_client = "string \<Rightarrow> bool \<Rightarrow> py_error + durable_status option"

definition get_orchestration_status ::
  "status_client \<Rightarrow> (string \<Rightarrow> json option) \<Rightarrow> (int \<Rightarrow> string) \<Rightarrow> string \<Rightarrow> bool
     \<Rightarrow> py_error + status_view" where
  "get_orchestration_status get_status loads fmt instance_id include_history =
     (case get_status instance_id include_history of
        Inl e \<Rightarrow> Inl e
      | Inr None \<Rightarrow>
          Inl (ValueError (''Orchestration instance '' @ [CHR 39] @ instance_id @ [CHR 39]
                           @ '' not found''))
      | Inr (Some st) \<Rightarrow>
          (let video_info = video_info_of loads (ds_input st);
               output_data = output_of loads (ds_output st);
               processing_duration =
                 processing_duration_of fmt (ds_created_time st) (ds_last_updated_time st);
               result =
                 \<lparr>sv_instance_id = instance_id,
                  sv_runtime_status =
                    (case ds_runtime_status st of Some n \<Rightarrow> n | None \<Rightarrow> ''Unknown''),
                  sv_created_time = ds_created_time st,
                  sv_last_updated_time = ds_last_updated_time st,
                  sv_processing_duration = processing_duration,
                  sv_video_info = video_info,
                  sv_output = output_data,
                  sv_custom_status = ds_custom_status st,
                  sv_execution_history = None,
                  sv_management_urls = []\<rparr>;
               result2 =
                 (case ds_history_events st of
                    Some (ev # evs) \<Rightarrow>
                      (if include_history
                       then result\<lparr>sv_execution_history :=
                                     Some (map history_entry_of (ev # evs))\<rparr>
                       else result)
                  | _ \<Rightarrow> result)
           in Inr (result2\<lparr>sv_management_urls :=
                 [(''status_query'', ''/api/VideoProcessingStatus/'' @ instance_id),
                  (''status_with_history'',
                   ''/api/VideoProcessingStatus/'' @ instance_id
                     @ ''?include_history=true'')]\<rparr>)))"

definition find_orchestration_by_video_name :: "string \<Rightarrow> (string \<times> string) list" where
  "find_orchestration_by_video_name video_name =
     [(''message'', ''Search by video name '' @ [CHR 39] @ video_name @ [CHR 39]
                    @ '' not yet implemented''),
      (''suggestion'', ''Use the instance ID returned when the video processing started''),
      (''alternative'', ''Use the list endpoint to see all recent orchestrations'')]"

definition list_recent_orchestrations :: "(string \<times> string) list" where
  "list_recent_orchestrations =
     [(''message'', ''Listing recent orchestrations not yet fully implemented''),
      (''note'',
       ''This feature requires additional configuration in the Durable Functions setup''),
      (''recommendation'',
       ''Store instance IDs when starting orchestrations for better tracking'')]"

text \<open>
  The HTTP request and response of \<open>main\<close>. The body is the value handed to \<open>json.dumps\<close>.
\<close>

record http_request =
  route_instance_id :: "string option"
  param_video_name :: "string option"
  param_include_history :: "string option"

datatype response_body = StatusBody status_view | MessageBody "(string \<times> string) list"

record http_response =
  status_code :: nat
  body :: response_body

text \<open>
  \<open>main\<close> of the status function: \<open>ValueError\<close> becomes the response 400, every other
  exception the response 500, so \<open>main\<close> always returns a response.
\<close>

definition error_response :: "py_error \<Rightarrow> http_response" where
  "error_response e =
     (case e of
        ValueError m \<Rightarrow>
          \<lparr>status_code = 400,
           body = MessageBody [(''error'', ''Bad Request''), (''message'', m)]\<rparr>
      | _ \<Rightarrow>
          \<lparr>status_code = 500,
           body = MessageBody [(''error'', ''Internal Server Error''),
                               (''message'', str_of_error e)]\<rparr>)"

definition status_main ::
  "(py_error + status_client) \<Rightarrow> (string \<Rightarrow> json option) \<Rightarrow> (int \<Rightarrow> string) \<Rightarrow> http_request
     \<Rightarrow> http_response" where
  "status_main client loads fmt req =
     (let instance_id = route_instance_id req;
          video_name = param_video_name req;
          include_history =
            (lower (case param_include_history req of Some v \<Rightarrow> v | None \<Rightarrow> ''false'')
               = ''true'')
      in case client of
           Inl e \<Rightarrow> error_response e
         | Inr get_status \<Rightarrow>
             (let by_name_or_list =
                (case video_name of
                   Some (c # cs) \<Rightarrow>
                     \<lparr>status_code = 200,
                      body = MessageBody (find_orchestration_by_video_name (c # cs))\<rparr>
                 | _ \<Rightarrow>
                     \<lparr>status_code = 200, body = MessageBody list_recent_orchestrations\<rparr>)
              in case instance_id of
                   Some (c # cs) \<Rightarrow>
                     (case get_orchestration_status get_status loads fmt (c # cs)
                             include_history of
                        Inl e \<Rightarrow> error_response e
                      | Inr view \<Rightarrow> \<lparr>status_code = 200, body = StatusBody view\<rparr>)
                 | _ \<Rightarrow> by_name_or_list))"

text \<open>
  A store with one instance, created at instant 1000000 and last updated at 43500000, and
  a formatter used only in the examples.
\<close>

definition demo_status :: durable_status where
  "demo_status =
     \<lparr>ds_input = JObj [(''blob_name'', JStr ''demo.mp4'')],
      ds_output = JNull,
      ds_created_time = Some 1000000,
      ds_last_updated_time = Some 43500000,
      ds_runtime_status = Some ''Running'',
      ds_custom_status = JNull,
      ds_history_events = None\<rparr>"

definition demo_store :: status_client where
  "demo_store instance_id show_history =
     (if instance_id = ''instance-1'' then Inr (Some demo_status) else Inr None)"

definition demo_loads :: "string \<Rightarrow> json option" where
  "demo_loads s = None"

definition demo_fmt :: "int \<Rightarrow> string" where
  "demo_fmt d = (if d = 42500000 then ''42.5'' else ''?'')"

section \<open>Facts about the string methods\<close>

lemma split_on_nonempty: "split_on c s \<noteq> []"
  by (induction s) (auto split: list.splits)

lemma join_split_on: "join_with c (split_on c s) = s"
proof (induction s)
  case Nil
  show ?case by simp
next
  case (Cons x xs)
  obtain p ps where ps: "split_on c xs = p # ps"
    using split_on_nonempty [of c xs] by (cases "split_on c xs") auto
  show ?case
  proof (cases "x = c")
    case True
    with Cons ps show ?thesis by simp
  next
    case False
    with Cons ps show ?thesis by (cases ps) auto
  qed
qed

lemma split_on_no_separator: "p \<in> set (split_on c s) \<Longrightarrow> c \<notin> set p"
proof (induction s arbitrary: p)
  case Nil
  then show ?case by simp
next
  case (Cons x xs)
  then show ?case
    by (cases "split_on c xs") (auto split: if_splits)
qed

lemma index_of_None: "index_of v xs = None \<longleftrightarrow> v \<notin> set xs"
  by (induction xs) auto

lemma index_of_Some:
  "index_of v xs = Some i \<Longrightarrow> i < length xs \<and> xs ! i = v \<and> v \<notin> set (take i xs)"
proof (induction xs arbitrary: i)
  case Nil
  then show ?case by simp
next
  case (Cons x xs)
  show ?case
  proof (cases "x = v")
    case True
    with Cons.prems show ?thesis by simp
  next
    case False
    with Cons.prems obtain j where j: "index_of v xs = Some j" "i = Suc j"
      by auto
    from Cons.IH [OF j(1)] False j(2) show ?thesis by simp
  qed
qed

lemma endswith_iff: "endswith s ext \<longleftrightarrow> (\<exists>p. s = p @ ext)"
proof
  assume "endswith s ext"
  then have "s = take (length s - length ext) s @ ext"
    by (metis append_take_drop_id endswith_def)
  then show "\<exists>p. s = p @ ext" ..
next
  assume "\<exists>p. s = p @ ext"
  then show "endswith s ext" by (auto simp: endswith_def)
qed

section \<open>Facts about the runs of the orchestrator\<close>

text \<open>
  One lemma for each way a run can go: the input is not a dict, one of the five activities
  fails, the search result is not a dict, or all five stages complete.
\<close>

lemma path_raise:
  assumes "\<not> is_dict (get_input ctx)"
  shows "orchestrator_function ctx = Raise (no_attribute (get_input ctx) ''get'')"
  using assms by (cases "get_input ctx") (simp_all add: orchestrator_function_def)

lemma path_fail1:
  assumes vi: "get_input ctx = JObj kvs"
    and r1: "act ''ExtractVideoMetadata'' (JObj kvs) = Inl e"
  shows "calls act (orchestrator_function ctx) = [(''ExtractVideoMetadata'', JObj kvs)]"
    and "history act (orchestrator_function ctx) = [Inl e]"
    and "map status (frames act (orchestrator_function ctx)) = [''processing'', ''failed'']"
    and "outcome act (orchestrator_function ctx) = Inr (failed_after ctx (JObj kvs) [] 1 e)"
  using r1 by (simp_all add: orchestrator_function_def Let_def on_exception_def vi)

lemma path_fail2:
  assumes vi: "get_input ctx = JObj kvs"
    and r1: "act ''ExtractVideoMetadata'' (JObj kvs) = Inr m"
    and r2: "act ''AnalyzeVideoContent'' (payload_analysis (JObj kvs) m) = Inl e"
  shows "calls act (orchestrator_function ctx) =
           [(''ExtractVideoMetadata'', JObj kvs),
            (''AnalyzeVideoContent'', payload_analysis (JObj kvs) m)]"
    and "history act (orchestrator_function ctx) = [Inr m, Inl e]"
    and "map status (frames act (orchestrator_function ctx))
           = [''processing'', ''processing'', ''failed'']"
    and "outcome act (orchestrator_function ctx) =
           Inr (failed_after ctx (JObj kvs) [(''metadata'', completed_step ctx 1 m)] 2 e)"
  using r2 by (simp_all add: orchestrator_function_def Let_def on_exception_def vi r1)

lemma path_fail3:
  assumes vi: "get_input ctx = JObj kvs"
    and r1: "act ''ExtractVideoMetadata'' (JObj kvs) = Inr m"
    and r2: "act ''AnalyzeVideoContent'' (payload_analysis (JObj kvs) m) = Inr a"
    and r3: "act ''GenerateEmbeddings'' (payload_embeddings (JObj kvs) m a) = Inl e"
  shows "calls act (orchestrator_function ctx) =
           [(''ExtractVideoMetadata'', JObj kvs),
            (''AnalyzeVideoContent'', payload_analysis (JObj kvs) m),
            (''GenerateEmbeddings'', payload_embeddings (JObj kvs) m a)]"
    and "history act (orchestrator_function ctx) = [Inr m, Inr a, Inl e]"
    and "map status (frames act (orchestrator_function ctx))
           = [''processing'', ''processing'', ''processing'', ''failed'']"
    and "outcome act (orchestrator_function ctx) =
           Inr (failed_after ctx (JObj kvs)
                  [(''metadata'', completed_step ctx 1 m),
                   (''analysis'', completed_step ctx 2 a)] 3 e)"
  using r3 by (simp_all add: orchestrator_function_def Let_def on_exception_def vi r1 r2)

lemma path_fail4:
  assumes vi: "get_input ctx = JObj kvs"
    and r1: "act ''ExtractVideoMetadata'' (JObj kvs) = Inr m"
    and r2: "act ''AnalyzeVideoContent'' (payload_analysis (JObj kvs) m) = Inr a"
    and r3: "act ''GenerateEmbeddings'' (payload_embeddings (JObj kvs) m a) = Inr b"
    and r4: "act ''StoreInAzureSearch'' (payload_search (JObj kvs) m a b) = Inl e"
  shows "calls act (orchestrator_function ctx) =
           [(''ExtractVideoMetadata'', JObj kvs),
            (''AnalyzeVideoContent'', payload_analysis (JObj kvs) m),
            (''GenerateEmbeddings'', payload_embeddings (JObj kvs) m a),
            (''StoreInAzureSearch'', payload_search (JObj kvs) m a b)]"
    and "history act (orchestrator_function ctx) = [Inr m, Inr a, Inr b, Inl e]"
    and "map status (frames act (orchestrator_function ctx))
           = [''processing'', ''processing'', ''processing'', ''processing'', ''failed'']"
    and "outcome act (orchestrator_function ctx) =
           Inr (failed_after ctx (JObj kvs)
                  [(''metadata'', completed_step ctx 1 m),
                   (''analysis'', completed_step ctx 2 a),
                   (''embeddings'', completed_step ctx 3 b)] 4 e)"
  using r4 by (simp_all add: orchestrator_function_def Let_def on_exception_def vi r1 r2 r3)

lemma path_nodict4:
  assumes vi: "get_input ctx = JObj kvs"
    and r1: "act ''ExtractVideoMetadata'' (JObj kvs) = Inr m"
    and r2: "act ''AnalyzeVideoContent'' (payload_analysis (JObj kvs) m) = Inr a"
    and r3: "act ''GenerateEmbeddings'' (payload_embeddings (JObj kvs) m a) = Inr b"
    and r4: "act ''StoreInAzureSearch'' (payload_search (JObj kvs) m a b) = Inr s"
    and nd: "\<not> is_dict s"
  shows "calls act (orchestrator_function ctx) =
           [(''ExtractVideoMetadata'', JObj kvs),
            (''AnalyzeVideoContent'', payload_analysis (JObj kvs) m),
            (''GenerateEmbeddings'', payload_embeddings (JObj kvs) m a),
            (''StoreInAzureSearch'', payload_search (JObj kvs) m a b)]"
    and "history act (orchestrator_function ctx) = [Inr m, Inr a, Inr b, Inr s]"
    and "map status (frames act (orchestrator_function ctx))
           = [''processing'', ''processing'', ''processing'', ''processing'', ''failed'']"
    and "outcome act (orchestrator_function ctx) =
           Inr (failed_after ctx (JObj kvs)
                  [(''metadata'', completed_step ctx 1 m),
                   (''analysis'', completed_step ctx 2 a),
                   (''embeddings'', completed_step ctx 3 b),
                   (''search_storage'', completed_step ctx 4 s)] 4 (no_attribute s ''get''))"
  using r4 nd
  by (cases s; simp add: orchestrator_function_def Let_def on_exception_def vi r1 r2 r3)+

lemma path_fail5:
  assumes vi: "get_input ctx = JObj kvs"
    and r1: "act ''ExtractVideoMetadata'' (JObj kvs) = Inr m"
    and r2: "act ''AnalyzeVideoContent'' (payload_analysis (JObj kvs) m) = Inr a"
    and r3: "act ''GenerateEmbeddings'' (payload_embeddings (JObj kvs) m a) = Inr b"
    and r4: "act ''StoreInAzureSearch'' (payload_search (JObj kvs) m a b) = Inr (JObj skvs)"
    and r5: "act ''GenerateVideoInsights''
               (payload_insights (JObj kvs) m a (spec_document_id (JObj skvs))) = Inl e"
  shows "calls act (orchestrator_function ctx) =
           [(''ExtractVideoMetadata'', JObj kvs),
            (''AnalyzeVideoContent'', payload_analysis (JObj kvs) m),
            (''GenerateEmbeddings'', payload_embeddings (JObj kvs) m a),
            (''StoreInAzureSearch'', payload_search (JObj kvs) m a b),
            (''GenerateVideoInsights'',
               payload_insights (JObj kvs) m a (spec_document_id (JObj skvs)))]"
    and "history act (orchestrator_function ctx) = [Inr m, Inr a, Inr b, Inr (JObj skvs), Inl e]"
    and "map status (frames act (orchestrator_function ctx))
           = [''processing'', ''processing'', ''processing'', ''processing'', ''processing'',
              ''failed'']"
    and "outcome act (orchestrator_function ctx) =
           Inr (failed_after ctx (JObj kvs)
                  [(''metadata'', completed_step ctx 1 m),
                   (''analysis'', completed_step ctx 2 a),
                   (''embeddings'', completed_step ctx 3 b),
                   (''search_storage'', completed_step ctx 4 (JObj skvs))] 5 e)"
  using r5 by (simp_all add: orchestrator_function_def Let_def on_exception_def vi r1 r2 r3 r4)

lemma path_completed:
  assumes vi: "get_input ctx = JObj kvs"
    and r1: "act ''ExtractVideoMetadata'' (JObj kvs) = Inr m"
    and r2: "act ''AnalyzeVideoContent'' (payload_analysis (JObj kvs) m) = Inr a"
    and r3: "act ''GenerateEmbeddings'' (payload_embeddings (JObj kvs) m a) = Inr b"
    and r4: "act ''StoreInAzureSearch'' (payload_search (JObj kvs) m a b) = Inr (JObj skvs)"
    and r5: "act ''GenerateVideoInsights''
               (payload_insights (JObj kvs) m a (spec_document_id (JObj skvs))) = Inr i"
  shows "calls act (orchestrator_function ctx) =
           [(''ExtractVideoMetadata'', JObj kvs),
            (''AnalyzeVideoContent'', payload_analysis (JObj kvs) m),
            (''GenerateEmbeddings'', payload_embeddings (JObj kvs) m a),
            (''StoreInAzureSearch'', payload_search (JObj kvs) m a b),
            (''GenerateVideoInsights'',
               payload_insights (JObj kvs) m a (spec_document_id (JObj skvs)))]"
    and "history act (orchestrator_function ctx) = [Inr m, Inr a, Inr b, Inr (JObj skvs), Inr i]"
    and "map status (frames act (orchestrator_function ctx))
           = [''processing'', ''processing'', ''processing'', ''processing'', ''processing'',
              ''completed'']"
    and "outcome act (orchestrator_function ctx) =
           Inr \<lparr>video_info = JObj kvs, start_time = current_utc_datetime ctx 0,
                status = ''completed'',
                steps = [(''metadata'', completed_step ctx 1 m),
                         (''analysis'', completed_step ctx 2 a),
                         (''embeddings'', completed_step ctx 3 b),
                         (''search_storage'', completed_step ctx 4 (JObj skvs)),
                         (''insights'', completed_step ctx 5 i)],
                errors = [], end_time = Some (current_utc_datetime ctx 5),
                processing_duration_seconds =
                  Some (current_utc_datetime ctx 5 - current_utc_datetime ctx 0)\<rparr>"
  using r5 by (simp_all add: orchestrator_function_def Let_def vi r1 r2 r3 r4)


lemma orchestrator_run_cases:
  obtains
    (raise) "\<not> is_dict (get_input ctx)"
  | (fail1) kvs e where "get_input ctx = JObj kvs"
      "act ''ExtractVideoMetadata'' (JObj kvs) = Inl e"
  | (fail2) kvs m e where "get_input ctx = JObj kvs"
      "act ''ExtractVideoMetadata'' (JObj kvs) = Inr m"
      "act ''AnalyzeVideoContent'' (payload_analysis (JObj kvs) m) = Inl e"
  | (fail3) kvs m a e where "get_input ctx = JObj kvs"
      "act ''ExtractVideoMetadata'' (JObj kvs) = Inr m"
      "act ''AnalyzeVideoContent'' (payload_analysis (JObj kvs) m) = Inr a"
      "act ''GenerateEmbeddings'' (payload_embeddings (JObj kvs) m a) = Inl e"
  | (fail4) kvs m a b e where "get_input ctx = JObj kvs"
      "act ''ExtractVideoMetadata'' (JObj kvs) = Inr m"
      "act ''AnalyzeVideoContent'' (payload_analysis (JObj kvs) m) = Inr a"
      "act ''GenerateEmbeddings'' (payload_embeddings (JObj kvs) m a) = Inr b"
      "act ''StoreInAzureSearch'' (payload_search (JObj kvs) m a b) = Inl e"
  | (nodict4) kvs m a b s where "get_input ctx = JObj kvs"
      "act ''ExtractVideoMetadata'' (JObj kvs) = Inr m"
      "act ''AnalyzeVideoContent'' (payload_analysis (JObj kvs) m) = Inr a"
      "act ''GenerateEmbeddings'' (payload_embeddings (JObj kvs) m a) = Inr b"
      "act ''StoreInAzureSearch'' (payload_search (JObj kvs) m a b) = Inr s"
      "\<not> is_dict s"
  | (fail5) kvs m a b skvs e where "get_input ctx = JObj kvs"
      "act ''ExtractVideoMetadata'' (JObj kvs) = Inr m"
      "act ''AnalyzeVideoContent'' (payload_analysis (JObj kvs) m) = Inr a"
      "act ''GenerateEmbeddings'' (payload_embeddings (JObj kvs) m a) = Inr b"
      "act ''StoreInAzureSearch'' (payload_search (JObj kvs) m a b) = Inr (JObj skvs)"
      "act ''GenerateVideoInsights''
         (payload_insights (JObj kvs) m a (spec_document_id (JObj skvs))) = Inl e"
  | (completed) kvs m a b skvs i where "get_input ctx = JObj kvs"
      "act ''ExtractVideoMetadata'' (JObj kvs) = Inr m"
      "act ''AnalyzeVideoContent'' (payload_analysis (JObj kvs) m) = Inr a"
      "act ''GenerateEmbeddings'' (payload_embeddings (JObj kvs) m a) = Inr b"
      "act ''StoreInAzureSearch'' (payload_search (JObj kvs) m a b) = Inr (JObj skvs)"
      "act ''GenerateVideoInsights''
         (payload_insights (JObj kvs) m a (spec_document_id (JObj skvs))) = Inr i"
proof (cases "is_dict (get_input ctx)")
  case False
  then show thesis by (rule raise)
next
  case True
  then obtain kvs where vi: "get_input ctx = JObj kvs"
    by (cases "get_input ctx") simp_all
  show thesis
  proof (cases "act ''ExtractVideoMetadata'' (JObj kvs)")
    case (Inl e)
    with vi show thesis by (rule fail1)
  next
    case r1: (Inr m)
    show thesis
    proof (cases "act ''AnalyzeVideoContent'' (payload_analysis (JObj kvs) m)")
      case (Inl e)
      with vi r1 show thesis by (rule fail2)
    next
      case r2: (Inr a)
      show thesis
      proof (cases "act ''GenerateEmbeddings'' (payload_embeddings (JObj kvs) m a)")
        case (Inl e)
        with vi r1 r2 show thesis by (rule fail3)
      next
        case r3: (Inr b)
        show thesis
        proof (cases "act ''StoreInAzureSearch'' (payload_search (JObj kvs) m a b)")
          case (Inl e)
          with vi r1 r2 r3 show thesis by (rule fail4)
        next
          case r4: (Inr s)
          show thesis
          proof (cases "is_dict s")
            case False
            with vi r1 r2 r3 r4 show thesis by (rule nodict4)
          next
            case True
            then obtain skvs where s: "s = JObj skvs"
              by (cases s) simp_all
            show thesis
            proof (cases "act ''GenerateVideoInsights''
                            (payload_insights (JObj kvs) m a (spec_document_id (JObj skvs)))")
              case (Inl e)
              with vi r1 r2 r3 r4 [unfolded s] show thesis by (rule fail5)
            next
              case (Inr i)
              with vi r1 r2 r3 r4 [unfolded s] show thesis by (rule completed)
            qed
          qed
        qed
      qed
    qed
  qed
qed

lemma calls_Raise: "g = Raise e \<Longrightarrow> calls act g = [] \<and> history act g = [] \<and> frames act g = []
    \<and> outcome act g = Inl e"
  by simp


lemma stub_run:
  "calls stub_invoker (orchestrator_function demo_context) =
     [(''ExtractVideoMetadata'', JObj [(''blob_name'', JStr ''demo.mp4'')]),
      (''AnalyzeVideoContent'',
         payload_analysis (JObj [(''blob_name'', JStr ''demo.mp4'')])
           (JObj [(''produced_by'', JStr ''ExtractVideoMetadata'')])),
      (''GenerateEmbeddings'',
         payload_embeddings (JObj [(''blob_name'', JStr ''demo.mp4'')])
           (JObj [(''produced_by'', JStr ''ExtractVideoMetadata'')])
           (JObj [(''produced_by'', JStr ''AnalyzeVideoContent'')])),
      (''StoreInAzureSearch'',
         payload_search (JObj [(''blob_name'', JStr ''demo.mp4'')])
           (JObj [(''produced_by'', JStr ''ExtractVideoMetadata'')])
           (JObj [(''produced_by'', JStr ''AnalyzeVideoContent'')])
           (JObj [(''produced_by'', JStr ''GenerateEmbeddings'')])),
      (''GenerateVideoInsights'',
         payload_insights (JObj [(''blob_name'', JStr ''demo.mp4'')])
           (JObj [(''produced_by'', JStr ''ExtractVideoMetadata'')])
           (JObj [(''produced_by'', JStr ''AnalyzeVideoContent'')])
           (JStr ''doc1''))]"
  "history stub_invoker (orchestrator_function demo_context) =
     [Inr (JObj [(''produced_by'', JStr ''ExtractVideoMetadata'')]),
      Inr (JObj [(''produced_by'', JStr ''AnalyzeVideoContent'')]),
      Inr (JObj [(''produced_by'', JStr ''GenerateEmbeddings'')]),
      Inr (JObj [(''document_id'', JStr ''doc1'')]),
      Inr (JObj [(''produced_by'', JStr ''GenerateVideoInsights'')])]"
  "map status (frames stub_invoker (orchestrator_function demo_context)) =
     [''processing'', ''processing'', ''processing'', ''processing'', ''processing'',
      ''completed'']"
  "outcome stub_invoker (orchestrator_function demo_context) =
     Inr \<lparr>video_info = JObj [(''blob_name'', JStr ''demo.mp4'')], start_time = 100,
          status = ''completed'',
          steps =
            [(''metadata'',
              \<lparr>step_status = ''completed'',
               step_result = JObj [(''produced_by'', JStr ''ExtractVideoMetadata'')],
               step_timestamp = 110\<rparr>),
             (''analysis'',
              \<lparr>step_status = ''completed'',
               step_result = JObj [(''produced_by'', JStr ''AnalyzeVideoContent'')],
               step_timestamp = 120\<rparr>),
             (''embeddings'',
              \<lparr>step_status = ''completed'',
               step_result = JObj [(''produced_by'', JStr ''GenerateEmbeddings'')],
               step_timestamp = 130\<rparr>),
             (''search_storage'',
              \<lparr>step_status = ''completed'',
               step_result = JObj [(''document_id'', JStr ''doc1'')],
               step_timestamp = 140\<rparr>),
             (''insights'',
              \<lparr>step_status = ''completed'',
               step_result = JObj [(''produced_by'', JStr ''GenerateVideoInsights'')],
               step_timestamp = 150\<rparr>)],
          errors = [], end_time = Some 150, processing_duration_seconds = Some 50\<rparr>"
  by (simp_all add: orchestrator_function_def Let_def demo_context_def stub_invoker_def
      completed_step_def)

lemma stage3_fails_run:
  "calls stage3_fails (orchestrator_function demo_context) =
     [(''ExtractVideoMetadata'', JObj [(''blob_name'', JStr ''demo.mp4'')]),
      (''AnalyzeVideoContent'',
         payload_analysis (JObj [(''blob_name'', JStr ''demo.mp4'')])
           (JObj [(''produced_by'', JStr ''ExtractVideoMetadata'')])),
      (''GenerateEmbeddings'',
         payload_embeddings (JObj [(''blob_name'', JStr ''demo.mp4'')])
           (JObj [(''produced_by'', JStr ''ExtractVideoMetadata'')])
           (JObj [(''produced_by'', JStr ''AnalyzeVideoContent'')]))]"
  "history stage3_fails (orchestrator_function demo_context) =
     [Inr (JObj [(''produced_by'', JStr ''ExtractVideoMetadata'')]),
      Inr (JObj [(''produced_by'', JStr ''AnalyzeVideoContent'')]),
      Inl (ActivityFailed ''embedding service down'')]"
  "outcome stage3_fails (orchestrator_function demo_context) =
     Inr \<lparr>video_info = JObj [(''blob_name'', JStr ''demo.mp4'')], start_time = 100,
          status = ''failed'',
          steps =
            [(''metadata'',
              \<lparr>step_status = ''completed'',
               step_result = JObj [(''produced_by'', JStr ''ExtractVideoMetadata'')],
               step_timestamp = 110\<rparr>),
             (''analysis'',
              \<lparr>step_status = ''completed'',
               step_result = JObj [(''produced_by'', JStr ''AnalyzeVideoContent'')],
               step_timestamp = 120\<rparr>)],
          errors = [\<lparr>err_error = ''embedding service down'', err_timestamp = 130,
                     err_step = ''orchestration''\<rparr>],
          end_time = Some 130, processing_duration_seconds = None\<rparr>"
  by (simp_all add: orchestrator_function_def Let_def demo_context_def stub_invoker_def
      stage3_fails_def completed_step_def on_exception_def)

text \<open>Facts that hold for every generator.\<close>

lemma last_frame_is_outcome:
  "outcome act g = Inr r \<Longrightarrow> frames act g \<noteq> [] \<and> last (frames act g) = r"
proof (induction g)
  case (Yield fr name payload k)
  then have "frames act (k (act name payload)) \<noteq> []
      \<and> last (frames act (k (act name payload))) = r"
    by simp
  then show ?case by simp
next
  case (Return r')
  then show ?case by simp
next
  case (Raise e)
  then show ?case by simp
qed

lemma replay_calls_take:
  "replay_calls act g (take n (history act g)) = drop n (calls act g)"
proof (induction g arbitrary: n)
  case (Yield fr name payload k)
  show ?case
  proof (cases n)
    case 0
    have "replay_calls act (k (act name payload)) (take 0 (history act (k (act name payload))))
            = drop 0 (calls act (k (act name payload)))"
      by (rule Yield.IH) simp
    with 0 show ?thesis by simp
  next
    case (Suc n')
    have "replay_calls act (k (act name payload)) (take n' (history act (k (act name payload))))
            = drop n' (calls act (k (act name payload)))"
      by (rule Yield.IH) simp
    with Suc show ?thesis by simp
  qed
next
  case (Return r)
  show ?case by simp
next
  case (Raise e)
  show ?case by simp
qed

lemma replay_outcome_take:
  "replay_outcome act g (take n (history act g)) = outcome act g"
proof (induction g arbitrary: n)
  case (Yield fr name payload k)
  show ?case
  proof (cases n)
    case 0
    have "replay_outcome act (k (act name payload)) (take 0 (history act (k (act name payload))))
            = outcome act (k (act name payload))"
      by (rule Yield.IH) simp
    with 0 show ?thesis by simp
  next
    case (Suc n')
    have "replay_outcome act (k (act name payload)) (take n' (history act (k (act name payload))))
            = outcome act (k (act name payload))"
      by (rule Yield.IH) simp
    with Suc show ?thesis by simp
  qed
next
  case (Return r)
  show ?case by simp
next
  case (Raise e)
  show ?case by simp
qed

text \<open>The video information that the Starter builds from the two example events.\<close>

lemma image_event_info:
  "build_video_info image_event =
     Inr \<lparr>vi_blob_url = JStr ''https://account.blob.core.windows.net/videos/pic.png'',
          vi_blob_name = JStr ''pic.png'', vi_container_name = JStr ''videos'',
          vi_event_type = JStr ''Microsoft.Storage.BlobCreated'',
          vi_event_time = JStr ''2024-01-01T00:00:00Z'',
          vi_content_type = JStr ''image/png'', vi_content_length = JInt 2048\<rparr>"
  by (simp add: build_video_info_def image_event_def bind_err_def py_split_last_def
      extract_container_name_call_def extract_container_name_def extract_container_name_try_def)

lemma video_event_info:
  "build_video_info video_event =
     Inr \<lparr>vi_blob_url = JStr ''https://account.blob.core.windows.net/videos/demo.mp4'',
          vi_blob_name = JStr ''demo.mp4'', vi_container_name = JStr ''videos'',
          vi_event_type = JStr ''Microsoft.Storage.BlobCreated'',
          vi_event_time = JStr ''2024-01-01T00:00:00Z'',
          vi_content_type = JStr ''video/mp4'', vi_content_length = JInt 12582912\<rparr>"
  by (simp add: build_video_info_def video_event_def bind_err_def py_split_last_def
      extract_container_name_call_def extract_container_name_def extract_container_name_try_def)

section \<open>The Starter: container name and video classification\<close>

text \<open>
  C10. For every subject string, \<open>extract_container_name\<close> returns a string and never
  raises. With the subject split at \<open>/\<close>, the result is the segment right after the first
  \<open>containers\<close> segment when that segment is followed by another one; it is the empty
  string when there is no \<open>containers\<close> segment or when the first one is the last segment.
\<close>

theorem extract_container_name_segment:
  "\<exists>r. extract_container_name subject = Inr r \<and>
     ((\<exists>pre post. split_on CHR ''/'' subject = pre @ ''containers'' # r # post
                  \<and> ''containers'' \<notin> set pre)
      \<or> (r = [] \<and> (''containers'' \<notin> set (split_on CHR ''/'' subject)
            \<or> (\<exists>pre. split_on CHR ''/'' subject = pre @ [''containers'']
                      \<and> ''containers'' \<notin> set pre))))"
proof (cases "index_of ''containers'' (split_on CHR ''/'' subject)")
  case None
  then have "extract_container_name subject = Inr []"
    by (simp add: extract_container_name_def extract_container_name_try_def)
  moreover from None have "''containers'' \<notin> set (split_on CHR ''/'' subject)"
    by (simp add: index_of_None)
  ultimately show ?thesis by blast
next
  case (Some i)
  let ?parts = "split_on CHR ''/'' subject"
  from index_of_Some [OF Some]
  have i: "i < length ?parts" "?parts ! i = ''containers''"
    "''containers'' \<notin> set (take i ?parts)"
    by simp_all
  have dec: "?parts = take i ?parts @ ''containers'' # drop (Suc i) ?parts"
    using i(1,2) by (metis id_take_nth_drop)
  show ?thesis
  proof (cases "Suc i < length ?parts")
    case True
    then have "drop (Suc i) ?parts = ?parts ! Suc i # drop (Suc (Suc i)) ?parts"
      by (simp add: Cons_nth_drop_Suc)
    with dec have "?parts = take i ?parts @ ''containers'' # ?parts ! Suc i
                     # drop (Suc (Suc i)) ?parts"
      by simp
    moreover have "extract_container_name subject = Inr (?parts ! Suc i)"
      using Some True by (simp add: extract_container_name_def extract_container_name_try_def)
    ultimately show ?thesis using i(3) by blast
  next
    case False
    then have "drop (Suc i) ?parts = []" by simp
    with dec have "?parts = take i ?parts @ [''containers'']" by simp
    moreover have "extract_container_name subject = Inr []"
      using Some False by (simp add: extract_container_name_def extract_container_name_try_def)
    ultimately show ?thesis using i(3) by blast
  qed
qed

theorem extract_container_name_segment_witness:
  "extract_container_name ''/blobServices/default/containers/videos/blobs/demo.mp4''
     = Inr ''videos''
   \<and> (\<exists>pre post. split_on CHR ''/'' ''/blobServices/default/containers/videos/blobs/demo.mp4''
                    = pre @ ''containers'' # ''videos'' # post
                  \<and> ''containers'' \<notin> set pre)"
proof -
  let ?s = "''/blobServices/default/containers/videos/blobs/demo.mp4''"
  have r: "extract_container_name ?s = Inr ''videos''"
    by (simp add: extract_container_name_def extract_container_name_try_def)
  have nc: "''containers'' \<in> set (split_on CHR ''/'' ?s)"
    by simp
  from extract_container_name_segment [of ?s] r nc show ?thesis
    by auto
qed

text \<open>
  C6. Classification looks at the content type first: a content type on the allow-list
  (compared in lower case) makes the object a video whatever its name. Only when the content
  type is empty or not on the list does the name decide: the object is then a video exactly
  when there is a name whose lower-case form ends with an extension of the list. The three
  examples of the specification evaluate as stated.
\<close>

theorem is_video_file_allow_lists:
  "(lower content_type \<in> set video_content_types \<longrightarrow> is_video_file content_type blob_name)
   \<and> (lower content_type \<notin> set video_content_types \<longrightarrow>
        is_video_file content_type blob_name =
          (\<exists>name ext. blob_name = Some name \<and> ext \<in> set video_extensions
                       \<and> (\<exists>p. lower name = p @ ext)))
   \<and> is_video_file ''video/mp4'' (Some ''x'')
   \<and> is_video_file [] (Some ''clip.mkv'')
   \<and> \<not> is_video_file ''image/png'' (Some ''pic.png'')"
proof (intro conjI impI)
  assume "lower content_type \<in> set video_content_types"
  moreover from this have "content_type \<noteq> []"
    by (auto simp: lower_def video_content_types_def)
  ultimately show "is_video_file content_type blob_name"
    by (simp add: is_video_file_def)
next
  assume no: "lower content_type \<notin> set video_content_types"
  have empty: "\<not> list_ex (\<lambda>ext. endswith (lower []) ext) video_extensions"
    by (simp add: lower_def endswith_def video_extensions_def)
  show "is_video_file content_type blob_name =
          (\<exists>name ext. blob_name = Some name \<and> ext \<in> set video_extensions
                       \<and> (\<exists>p. lower name = p @ ext))"
  proof (cases blob_name)
    case None
    with no show ?thesis by (simp add: is_video_file_def)
  next
    case (Some name)
    have "is_video_file content_type blob_name
            = list_ex (\<lambda>ext. endswith (lower name) ext) video_extensions"
      using no Some empty by (cases "name = []") (simp_all add: is_video_file_def)
    also have "\<dots> = (\<exists>ext. ext \<in> set video_extensions \<and> (\<exists>p. lower name = p @ ext))"
      by (simp add: list_ex_iff endswith_iff Bex_def)
    finally show ?thesis using Some by simp
  qed
next
  show "is_video_file ''video/mp4'' (Some ''x'')"
    by (simp add: is_video_file_def lower_def lower_char_def video_content_types_def)
next
  show "is_video_file [] (Some ''clip.mkv'')"
    by (simp add: is_video_file_def lower_def lower_char_def video_extensions_def endswith_def)
next
  show "\<not> is_video_file ''image/png'' (Some ''pic.png'')"
    by (simp add: is_video_file_def lower_def lower_char_def video_content_types_def
        video_extensions_def endswith_def)
qed

theorem is_video_file_allow_lists_witness:
  "lower ''Video/MP4'' \<in> set video_content_types \<and> is_video_file ''Video/MP4'' None
   \<and> lower ''image/png'' \<notin> set video_content_types
   \<and> is_video_file ''image/png'' (Some ''Pic.MP4'')
   \<and> \<not> is_video_file ''image/png'' None"
proof -
  have l1: "lower ''Video/MP4'' = ''video/mp4''" by code_simp
  have l2: "lower ''Pic.MP4'' = ''pic.mp4''" by code_simp
  have a: "lower ''Video/MP4'' \<in> set video_content_types"
    by (simp add: l1 video_content_types_def)
  have b: "lower ''image/png'' \<notin> set video_content_types"
    by (simp add: lower_def lower_char_def video_content_types_def)
  have c: "''.mp4'' \<in> set video_extensions \<and> lower ''Pic.MP4'' = ''pic'' @ ''.mp4''"
    by (simp add: l2 video_extensions_def)
  from is_video_file_allow_lists [of "''Video/MP4''" None] a
  have 1: "is_video_file ''Video/MP4'' None" by blast
  from is_video_file_allow_lists [of "''image/png''" "Some ''Pic.MP4''"] b c
  have 2: "is_video_file ''image/png'' (Some ''Pic.MP4'')" by blast
  from is_video_file_allow_lists [of "''image/png''" None] b
  have 3: "\<not> is_video_file ''image/png'' None" by blast
  from a b 1 2 3 show ?thesis by blast
qed

section \<open>The orchestrator: order of the stages\<close>

text \<open>
  C1. In every run the orchestrator invokes the activities one at a time and in the fixed
  order: the names of the invocations are an initial segment of the five stage names, so no
  stage is skipped or reordered, and the payload of each invocation is the one the
  specification lists, built from the input and the outputs of the stages before it (stage 5
  receives the \<open>document_id\<close> of the search result). When the input is a dict and every
  stage returns a dict, all five stages are invoked.
\<close>

theorem orchestrator_stage_order:
  "map fst (calls act (orchestrator_function ctx))
     = take (length (calls act (orchestrator_function ctx))) stage_names
   \<and> map snd (calls act (orchestrator_function ctx))
     = map (\<lambda>k. spec_payload (get_input ctx)
                   (take k (outputs (history act (orchestrator_function ctx)))))
         [0..<length (calls act (orchestrator_function ctx))]
   \<and> (is_dict (get_input ctx)
        \<and> list_all (\<lambda>r. case r of Inl e \<Rightarrow> False | Inr v \<Rightarrow> is_dict v)
             (history act (orchestrator_function ctx))
        \<longrightarrow> map fst (calls act (orchestrator_function ctx)) = stage_names)"
proof (cases rule: orchestrator_run_cases [where ctx = ctx and act = act])
  case raise
  from calls_Raise [OF path_raise [OF raise]] raise show ?thesis by simp
next
  case (fail1 kvs e)
  note p = path_fail1 [where act = act, OF fail1]
  show ?thesis by (simp add: p fail1(1) stage_names_def)
next
  case (fail2 kvs m e)
  note p = path_fail2 [where act = act, OF fail2]
  show ?thesis by (simp add: p fail2(1) stage_names_def upt_rec)
next
  case (fail3 kvs m a e)
  note p = path_fail3 [where act = act, OF fail3]
  show ?thesis by (simp add: p fail3(1) stage_names_def upt_rec)
next
  case (fail4 kvs m a b e)
  note p = path_fail4 [where act = act, OF fail4]
  show ?thesis by (simp add: p fail4(1) stage_names_def upt_rec)
next
  case (nodict4 kvs m a b s)
  note p = path_nodict4 [where act = act, OF nodict4]
  show ?thesis using nodict4(6) by (simp add: p nodict4(1) stage_names_def upt_rec)
next
  case (fail5 kvs m a b skvs e)
  note p = path_fail5 [where act = act, OF fail5]
  show ?thesis by (simp add: p fail5(1) stage_names_def upt_rec)
next
  case (completed kvs m a b skvs i)
  note p = path_completed [where act = act, OF completed]
  show ?thesis by (simp add: p completed(1) stage_names_def upt_rec)
qed

theorem orchestrator_stage_order_witness:
  "is_dict (get_input demo_context)
   \<and> list_all (\<lambda>r. case r of Inl e \<Rightarrow> False | Inr v \<Rightarrow> is_dict v)
        (history stub_invoker (orchestrator_function demo_context))
   \<and> map fst (calls stub_invoker (orchestrator_function demo_context)) = stage_names"
proof -
  have a: "is_dict (get_input demo_context)"
    by (simp add: demo_context_def)
  have b: "list_all (\<lambda>r. case r of Inl e \<Rightarrow> False | Inr v \<Rightarrow> is_dict v)
             (history stub_invoker (orchestrator_function demo_context))"
    by (simp add: stub_run(2))
  from orchestrator_stage_order [of stub_invoker demo_context] a b show ?thesis
    by blast
qed


section \<open>The orchestrator: failures\<close>

text \<open>
  C3, as the code has it. When the invocation of a stage fails, the orchestrator returns a
  result with exactly one error record, which carries the message of the failure and the
  time of the clock, and whose \<open>step\<close> field is the constant \<open>orchestration\<close>: the
  \<open>except\<close> block is shared by all stages and does not name the stage that failed. The
  status is \<open>failed\<close>, \<open>end_time\<close> is recorded, and the run halts: the failure is the last
  result delivered and every invocation made has its result in the history, so no later
  stage is invoked. \<open>steps\<close> holds exactly the completed records of the stages before the
  failing one, in order; when stage 3 fails these are the records of stages 1 and 2 and the
  invocations are those of stages 1 to 3.
\<close>

theorem failure_recorded_and_run_halts:
  assumes "Inl e \<in> set (history act (orchestrator_function ctx))"
  shows "\<exists>r. outcome act (orchestrator_function ctx) = Inr r
     \<and> errors r =
         [\<lparr>err_error = str_of_error e,
           err_timestamp =
             current_utc_datetime ctx (length (history act (orchestrator_function ctx))),
           err_step = ''orchestration''\<rparr>]
     \<and> status r = ''failed''
     \<and> end_time r =
         Some (current_utc_datetime ctx (length (history act (orchestrator_function ctx))))
     \<and> map Inr (outputs (history act (orchestrator_function ctx))) @ [Inl e]
         = history act (orchestrator_function ctx)
     \<and> length (calls act (orchestrator_function ctx))
         = length (history act (orchestrator_function ctx))
     \<and> map fst (steps r)
         = take (length (outputs (history act (orchestrator_function ctx)))) step_names
     \<and> map (\<lambda>(key, s). (step_status s, step_result s)) (steps r)
         = map (\<lambda>v. (''completed'', v)) (outputs (history act (orchestrator_function ctx)))
     \<and> (length (history act (orchestrator_function ctx)) = 3 \<longrightarrow>
          map fst (steps r) = [''metadata'', ''analysis'']
          \<and> map fst (calls act (orchestrator_function ctx)) = take 3 stage_names)"
proof (cases rule: orchestrator_run_cases [where ctx = ctx and act = act])
  case raise
  from calls_Raise [OF path_raise [OF raise]] assms show ?thesis by simp
next
  case (fail1 kvs e')
  note p = path_fail1 [where act = act, OF fail1]
  from assms show ?thesis by (simp add: p step_names_def completed_step_def eval_nat_numeral)
next
  case (fail2 kvs m e')
  note p = path_fail2 [where act = act, OF fail2]
  from assms show ?thesis by (simp add: p step_names_def completed_step_def eval_nat_numeral)
next
  case (fail3 kvs m a e')
  note p = path_fail3 [where act = act, OF fail3]
  from assms show ?thesis by (simp add: p step_names_def stage_names_def completed_step_def eval_nat_numeral)
next
  case (fail4 kvs m a b e')
  note p = path_fail4 [where act = act, OF fail4]
  from assms show ?thesis by (simp add: p step_names_def completed_step_def eval_nat_numeral)
next
  case (nodict4 kvs m a b s)
  note p = path_nodict4 [where act = act, OF nodict4]
  from assms show ?thesis by (simp add: p)
next
  case (fail5 kvs m a b skvs e')
  note p = path_fail5 [where act = act, OF fail5]
  from assms show ?thesis by (simp add: p step_names_def completed_step_def eval_nat_numeral)
next
  case (completed kvs m a b skvs i)
  note p = path_completed [where act = act, OF completed]
  from assms show ?thesis by (simp add: p)
qed

theorem failure_recorded_and_run_halts_witness:
  "Inl (ActivityFailed ''embedding service down'')
     \<in> set (history stage3_fails (orchestrator_function demo_context))
   \<and> length (history stage3_fails (orchestrator_function demo_context)) = 3
   \<and> status (projr (outcome stage3_fails (orchestrator_function demo_context))) = ''failed''
   \<and> map fst (steps (projr (outcome stage3_fails (orchestrator_function demo_context))))
       = [''metadata'', ''analysis'']
   \<and> map fst (calls stage3_fails (orchestrator_function demo_context)) = take 3 stage_names"
proof -
  have h: "Inl (ActivityFailed ''embedding service down'')
             \<in> set (history stage3_fails (orchestrator_function demo_context))"
    by (simp add: stage3_fails_run(2))
  have l: "length (history stage3_fails (orchestrator_function demo_context)) = 3"
    by (simp add: stage3_fails_run(2))
  have "\<exists>r. outcome stage3_fails (orchestrator_function demo_context) = Inr r
      \<and> status r = ''failed'' \<and> map fst (steps r) = [''metadata'', ''analysis'']
      \<and> map fst (calls stage3_fails (orchestrator_function demo_context)) = take 3 stage_names"
    using failure_recorded_and_run_halts [OF h] by (elim exE conjE) (simp add: l)
  with h l show ?thesis by auto
qed

text \<open>
  The claim as the specification words it fails: in the run where stage 3 fails, the only
  error record has the step \<open>orchestration\<close>, which is neither the name of an activity nor
  a key of \<open>steps\<close>.
\<close>

theorem error_step_names_stage_counterexample:
  "history stage3_fails (orchestrator_function demo_context) =
     [Inr (JObj [(''produced_by'', JStr ''ExtractVideoMetadata'')]),
      Inr (JObj [(''produced_by'', JStr ''AnalyzeVideoContent'')]),
      Inl (ActivityFailed ''embedding service down'')]
   \<and> map err_step (errors (projr (outcome stage3_fails (orchestrator_function demo_context))))
       = [''orchestration'']
   \<and> ''orchestration'' \<notin> set stage_names
   \<and> ''orchestration'' \<notin> set step_names"
  by (simp add: stage3_fails_run stage_names_def step_names_def)

section \<open>The orchestrator: completed runs\<close>

text \<open>
  C4. When the orchestrator returns a result whose status is \<open>completed\<close>, \<open>steps\<close> holds
  one record for each of the five stages, each key once and in the fixed order, every record
  has the status \<open>completed\<close> and the output of its stage, all five activities were invoked,
  \<open>end_time\<close> is recorded and \<open>processing_duration_seconds\<close> is \<open>end_time\<close> minus
  \<open>start_time\<close>.
\<close>

theorem completed_run_has_all_steps:
  assumes "outcome act (orchestrator_function ctx) = Inr r" and "status r = ''completed''"
  shows "map fst (steps r) = step_names
     \<and> distinct (map fst (steps r))
     \<and> list_all (\<lambda>(key, s). step_status s = ''completed'') (steps r)
     \<and> map (\<lambda>(key, s). step_result s) (steps r)
         = outputs (history act (orchestrator_function ctx))
     \<and> map fst (calls act (orchestrator_function ctx)) = stage_names
     \<and> start_time r = current_utc_datetime ctx 0
     \<and> end_time r = Some (current_utc_datetime ctx 5)
     \<and> processing_duration_seconds r = Some (current_utc_datetime ctx 5 - start_time r)"
proof (cases rule: orchestrator_run_cases [where ctx = ctx and act = act])
  case raise
  from calls_Raise [OF path_raise [OF raise]] assms show ?thesis by simp
next
  case (fail1 kvs e')
  note p = path_fail1 [where act = act, OF fail1]
  from assms show ?thesis by (auto simp add: p)
next
  case (fail2 kvs m e')
  note p = path_fail2 [where act = act, OF fail2]
  from assms show ?thesis by (auto simp add: p)
next
  case (fail3 kvs m a e')
  note p = path_fail3 [where act = act, OF fail3]
  from assms show ?thesis by (auto simp add: p)
next
  case (fail4 kvs m a b e')
  note p = path_fail4 [where act = act, OF fail4]
  from assms show ?thesis by (auto simp add: p)
next
  case (nodict4 kvs m a b s)
  note p = path_nodict4 [where act = act, OF nodict4]
  from assms show ?thesis by (auto simp add: p)
next
  case (fail5 kvs m a b skvs e')
  note p = path_fail5 [where act = act, OF fail5]
  from assms show ?thesis by (auto simp add: p)
next
  case (completed kvs m a b skvs i)
  note p = path_completed [where act = act, OF completed]
  from assms(1) have "r = projr (outcome act (orchestrator_function ctx))" by simp
  then show ?thesis
    by (simp add: p step_names_def stage_names_def completed_step_def)
qed

theorem completed_run_has_all_steps_witness:
  "status (projr (outcome stub_invoker (orchestrator_function demo_context))) = ''completed''
   \<and> map fst (steps (projr (outcome stub_invoker (orchestrator_function demo_context))))
       = step_names
   \<and> processing_duration_seconds
        (projr (outcome stub_invoker (orchestrator_function demo_context))) = Some 50"
proof -
  let ?r = "projr (outcome stub_invoker (orchestrator_function demo_context))"
  have o: "outcome stub_invoker (orchestrator_function demo_context) = Inr ?r"
    by (simp add: stub_run(4))
  have s: "status ?r = ''completed''"
    by (simp add: stub_run(4))
  have t: "start_time ?r = 100"
    by (simp add: stub_run(4))
  have u: "current_utc_datetime demo_context 5 = 150"
    by (simp add: demo_context_def)
  from completed_run_has_all_steps [OF o s] s t u show ?thesis
    by simp
qed

section \<open>The orchestrator: the status field\<close>

text \<open>
  C5, as the code has it. The status of \<open>orchestration_result\<close> takes the values
  \<open>processing\<close>, \<open>completed\<close> and \<open>failed\<close> (the code has no \<open>pending\<close> or \<open>running\<close>).
  Over the successive values of \<open>orchestration_result\<close> in a run, the status is
  \<open>processing\<close> at every suspension and becomes \<open>completed\<close> or \<open>failed\<close> exactly once, in
  the result that the orchestrator returns; nothing follows a terminal status. When the input
  is not a dict the orchestrator raises before it creates \<open>orchestration_result\<close>.
\<close>

theorem status_lifecycle:
  "(\<not> is_dict (get_input ctx) \<longrightarrow> frames act (orchestrator_function ctx) = [])
   \<and> (is_dict (get_input ctx) \<longrightarrow>
        map status (frames act (orchestrator_function ctx))
          = replicate (length (frames act (orchestrator_function ctx)) - 1) ''processing''
            @ [status (last (frames act (orchestrator_function ctx)))]
        \<and> (status (last (frames act (orchestrator_function ctx))) = ''completed''
            \<or> status (last (frames act (orchestrator_function ctx))) = ''failed'')
        \<and> outcome act (orchestrator_function ctx)
            = Inr (last (frames act (orchestrator_function ctx))))"
proof -
  let ?g = "orchestrator_function ctx"
  have shape: "map status (frames act ?g)
          = replicate (length (frames act ?g) - 1) ''processing'' @ [status (last (frames act ?g))]
        \<and> (status (last (frames act ?g)) = ''completed''
            \<or> status (last (frames act ?g)) = ''failed'')
        \<and> outcome act ?g = Inr (last (frames act ?g))"
    if st: "map status (frames act ?g) = replicate n ''processing'' @ [t]"
      and t: "t = ''completed'' \<or> t = ''failed''"
      and out: "outcome act ?g = Inr r" for n t r
  proof -
    from last_frame_is_outcome [OF out]
    have ne: "frames act ?g \<noteq> []" and l: "last (frames act ?g) = r" by simp_all
    from st have "length (map status (frames act ?g)) = Suc n" by simp
    then have len: "length (frames act ?g) - 1 = n" by simp
    from ne have "status (last (frames act ?g)) = last (map status (frames act ?g))"
      by (simp add: last_map)
    with st have "status (last (frames act ?g)) = t" by simp
    with st t len out l show ?thesis by simp
  qed
  show ?thesis
  proof (cases rule: orchestrator_run_cases [where ctx = ctx and act = act])
    case raise
    from calls_Raise [OF path_raise [OF raise]] raise show ?thesis by simp
  next
    case (fail1 kvs e)
    note p = path_fail1 [where act = act, OF fail1]
    have "map status (frames act ?g) = replicate 1 ''processing'' @ [''failed'']"
      by (simp add: p(3) eval_nat_numeral)
    from shape [OF this _ p(4)] fail1(1) show ?thesis
      by simp
  next
    case (fail2 kvs m e)
    note p = path_fail2 [where act = act, OF fail2]
    have "map status (frames act ?g) = replicate 2 ''processing'' @ [''failed'']"
      by (simp add: p(3) eval_nat_numeral)
    from shape [OF this _ p(4)] fail2(1) show ?thesis
      by simp
  next
    case (fail3 kvs m a e)
    note p = path_fail3 [where act = act, OF fail3]
    have "map status (frames act ?g) = replicate 3 ''processing'' @ [''failed'']"
      by (simp add: p(3) eval_nat_numeral)
    from shape [OF this _ p(4)] fail3(1) show ?thesis
      by simp
  next
    case (fail4 kvs m a b e)
    note p = path_fail4 [where act = act, OF fail4]
    have "map status (frames act ?g) = replicate 4 ''processing'' @ [''failed'']"
      by (simp add: p(3) eval_nat_numeral)
    from shape [OF this _ p(4)] fail4(1) show ?thesis
      by simp
  next
    case (nodict4 kvs m a b s)
    note p = path_nodict4 [where act = act, OF nodict4]
    have "map status (frames act ?g) = replicate 4 ''processing'' @ [''failed'']"
      by (simp add: p(3) eval_nat_numeral)
    from shape [OF this _ p(4)] nodict4(1) show ?thesis
      by simp
  next
    case (fail5 kvs m a b skvs e)
    note p = path_fail5 [where act = act, OF fail5]
    have "map status (frames act ?g) = replicate 5 ''processing'' @ [''failed'']"
      by (simp add: p(3) eval_nat_numeral)
    from shape [OF this _ p(4)] fail5(1) show ?thesis
      by simp
  next
    case (completed kvs m a b skvs i)
    note p = path_completed [where act = act, OF completed]
    have "map status (frames act ?g) = replicate 5 ''processing'' @ [''completed'']"
      by (simp add: p(3) eval_nat_numeral)
    from shape [OF this _ p(4)] completed(1) show ?thesis
      by simp
  qed
qed

theorem status_lifecycle_witness:
  "is_dict (get_input demo_context)
   \<and> map status (frames stage3_fails (orchestrator_function demo_context))
       = [''processing'', ''processing'', ''processing'', ''failed'']
   \<and> map status (frames stub_invoker (orchestrator_function demo_context))
       = [''processing'', ''processing'', ''processing'', ''processing'', ''processing'',
          ''completed'']"
proof -
  have a: "is_dict (get_input demo_context)"
    by (simp add: demo_context_def)
  have l1: "length (frames stage3_fails (orchestrator_function demo_context)) = 4"
    by (simp add: orchestrator_function_def Let_def demo_context_def stub_invoker_def
        stage3_fails_def)
  have f1: "status (last (frames stage3_fails (orchestrator_function demo_context))) = ''failed''"
    by (simp add: orchestrator_function_def Let_def demo_context_def stub_invoker_def
        stage3_fails_def on_exception_def)
  from status_lifecycle [of demo_context stage3_fails] a l1 f1
  have 1: "map status (frames stage3_fails (orchestrator_function demo_context))
       = [''processing'', ''processing'', ''processing'', ''failed'']"
    by (simp add: eval_nat_numeral)
  from 1 stub_run(3) a show ?thesis by simp
qed

text \<open>
  The claim as the specification words it fails: in a run where all stages succeed the
  status takes the value \<open>processing\<close>, which is none of \<open>pending\<close>, \<open>running\<close>,
  \<open>completed\<close>, \<open>failed\<close>.
\<close>

theorem status_values_counterexample:
  "\<not> set (map status (frames stub_invoker (orchestrator_function demo_context)))
       \<subseteq> set [''pending'', ''running'', ''completed'', ''failed'']"
  by (simp add: stub_run(3))

section \<open>Replay\<close>

text \<open>
  C2. Replaying the orchestrator over the first \<open>n\<close> recorded results of a run invokes
  exactly the activities the run invoked after those \<open>n\<close>, and returns what the run
  returned: the invocations before a restart together with those of the replay are the
  invocations of one uninterrupted run, and a replay over the whole history invokes nothing.
  With stages 1 to 3 recorded as completed, the replay invokes only \<open>StoreInAzureSearch\<close>
  and then, when that stage returns a dict, \<open>GenerateVideoInsights\<close>.
\<close>

theorem replay_invokes_only_missing_stages:
  "(\<forall>n. replay_calls act (orchestrator_function ctx)
            (take n (history act (orchestrator_function ctx)))
          = drop n (calls act (orchestrator_function ctx))
        \<and> replay_outcome act (orchestrator_function ctx)
            (take n (history act (orchestrator_function ctx)))
          = outcome act (orchestrator_function ctx))
   \<and> replay_calls act (orchestrator_function ctx) (history act (orchestrator_function ctx)) = []
   \<and> (is_dict (get_input ctx) \<longrightarrow>
        (\<forall>m a b. replay_calls act (orchestrator_function ctx) [Inr m, Inr a, Inr b]
           = (''StoreInAzureSearch'', payload_search (get_input ctx) m a b)
             # (case act ''StoreInAzureSearch'' (payload_search (get_input ctx) m a b) of
                  Inl e \<Rightarrow> []
                | Inr s \<Rightarrow>
                    if is_dict s
                    then [(''GenerateVideoInsights'',
                           payload_insights (get_input ctx) m a (spec_document_id s))]
                    else [])))"
proof (intro conjI allI impI)
  fix n
  show "replay_calls act (orchestrator_function ctx)
          (take n (history act (orchestrator_function ctx)))
        = drop n (calls act (orchestrator_function ctx))"
    by (rule replay_calls_take)
  show "replay_outcome act (orchestrator_function ctx)
          (take n (history act (orchestrator_function ctx)))
        = outcome act (orchestrator_function ctx)"
    by (rule replay_outcome_take)
next
  have "length (calls act g) = length (history act g)" for g
    by (induction g) simp_all
  with replay_calls_take [of act "orchestrator_function ctx"
      "length (history act (orchestrator_function ctx))"]
  show "replay_calls act (orchestrator_function ctx)
          (history act (orchestrator_function ctx)) = []"
    by simp
next
  fix m a b
  assume "is_dict (get_input ctx)"
  then obtain kvs where vi: "get_input ctx = JObj kvs"
    by (cases "get_input ctx") simp_all
  show "replay_calls act (orchestrator_function ctx) [Inr m, Inr a, Inr b]
           = (''StoreInAzureSearch'', payload_search (get_input ctx) m a b)
             # (case act ''StoreInAzureSearch'' (payload_search (get_input ctx) m a b) of
                  Inl e \<Rightarrow> []
                | Inr s \<Rightarrow>
                    if is_dict s
                    then [(''GenerateVideoInsights'',
                           payload_insights (get_input ctx) m a (spec_document_id s))]
                    else [])"
  proof (cases "act ''StoreInAzureSearch'' (payload_search (JObj kvs) m a b)")
    case (Inl e)
    then show ?thesis
      by (simp add: orchestrator_function_def Let_def vi)
  next
    case (Inr s)
    then show ?thesis
      by (cases s) (simp_all add: orchestrator_function_def Let_def vi split: sum.split)
  qed
qed

theorem replay_invokes_only_missing_stages_witness:
  "is_dict (get_input demo_context)
   \<and> map fst (replay_calls stub_invoker (orchestrator_function demo_context)
        [Inr (JObj [(''produced_by'', JStr ''ExtractVideoMetadata'')]),
         Inr (JObj [(''produced_by'', JStr ''AnalyzeVideoContent'')]),
         Inr (JObj [(''produced_by'', JStr ''GenerateEmbeddings'')])])
     = [''StoreInAzureSearch'', ''GenerateVideoInsights'']"
proof -
  have a: "is_dict (get_input demo_context)"
    by (simp add: demo_context_def)
  have b: "stub_invoker ''StoreInAzureSearch'' p = Inr (JObj [(''document_id'', JStr ''doc1'')])"
    for p
    by (simp add: stub_invoker_def)
  from replay_invokes_only_missing_stages [of stub_invoker demo_context] a
  show ?thesis by (simp add: b)
qed

section \<open>The Starter: skipping files that are not videos\<close>

text \<open>
  C7. When the video information is built from the event and its classification is
  negative, \<open>main\<close> returns without creating a client or starting an orchestration: the
  outcome is the skip, not an exception. Conversely the skip happens only on a negative
  classification, and an orchestration is started only after a positive one, with the video
  information as its input.
\<close>

theorem non_video_is_skipped:
  "(build_video_info event_data = Inr v \<and> classify v = Inr False
      \<longrightarrow> starter_main event_data client = Skipped)
   \<and> (starter_main event_data client = Skipped
      \<longrightarrow> (\<exists>v. build_video_info event_data = Inr v \<and> classify v = Inr False))
   \<and> (starter_main event_data client = Started instance_id input
      \<longrightarrow> (\<exists>v. build_video_info event_data = Inr v \<and> classify v = Inr True
               \<and> input = video_info_json v))"
  by (auto simp: starter_main_def split: sum.splits bool.splits)

theorem non_video_is_skipped_witness:
  "starter_main image_event demo_client = Skipped
   \<and> (\<exists>v. build_video_info image_event = Inr v \<and> classify v = Inr False)
   \<and> (\<exists>v. build_video_info video_event = Inr v \<and> classify v = Inr True
          \<and> starter_main video_event demo_client = Started ''instance-1'' (video_info_json v))"
proof -
  let ?img = "\<lparr>vi_blob_url = JStr ''https://account.blob.core.windows.net/videos/pic.png'',
          vi_blob_name = JStr ''pic.png'', vi_container_name = JStr ''videos'',
          vi_event_type = JStr ''Microsoft.Storage.BlobCreated'',
          vi_event_time = JStr ''2024-01-01T00:00:00Z'',
          vi_content_type = JStr ''image/png'', vi_content_length = JInt 2048\<rparr>"
  let ?vid = "\<lparr>vi_blob_url = JStr ''https://account.blob.core.windows.net/videos/demo.mp4'',
          vi_blob_name = JStr ''demo.mp4'', vi_container_name = JStr ''videos'',
          vi_event_type = JStr ''Microsoft.Storage.BlobCreated'',
          vi_event_time = JStr ''2024-01-01T00:00:00Z'',
          vi_content_type = JStr ''video/mp4'', vi_content_length = JInt 12582912\<rparr>"
  have c1: "classify ?img = Inr False"
    by (simp add: classify_def is_video_file_call_def is_video_file_def lower_def lower_char_def
        video_content_types_def video_extensions_def endswith_def)
  have c2: "classify ?vid = Inr True"
    by (simp add: classify_def is_video_file_call_def is_video_file_def lower_def lower_char_def
        video_content_types_def)
  have s2: "starter_main video_event demo_client = Started ''instance-1'' (video_info_json ?vid)"
    by (simp add: starter_main_def video_event_info c2 demo_client_def)
  from non_video_is_skipped [of image_event ?img demo_client] image_event_info c1
  have s1: "starter_main image_event demo_client = Skipped"
    by blast
  from non_video_is_skipped [of video_event _ demo_client "''instance-1''" "video_info_json ?vid"] s2
  have "\<exists>v. build_video_info video_event = Inr v \<and> classify v = Inr True
          \<and> video_info_json ?vid = video_info_json v"
    by blast
  with s1 s2 image_event_info video_event_info c1 c2 show ?thesis
    by auto
qed

section \<open>The status query\<close>

text \<open>
  C8. For an instance that exists, the status query returns a view whose
  \<open>processing_duration\<close> is the difference of \<open>last_updated_time\<close> and \<open>created_time\<close>,
  formatted and followed by the word seconds, when both times are present, and \<open>None\<close>
  when one of them is missing.
\<close>

theorem processing_duration_from_timestamps:
  assumes "get_status instance_id include_history = Inr (Some st)"
  shows "\<exists>view. get_orchestration_status get_status loads fmt instance_id include_history
                  = Inr view
     \<and> sv_processing_duration view =
         (case (ds_created_time st, ds_last_updated_time st) of
            (Some c, Some u) \<Rightarrow> Some (fmt (u - c) @ '' seconds'')
          | _ \<Rightarrow> None)
     \<and> sv_created_time view = ds_created_time st
     \<and> sv_last_updated_time view = ds_last_updated_time st"
  using assms
  by (simp add: get_orchestration_status_def processing_duration_of_def Let_def
      split: option.split list.split)

theorem processing_duration_from_timestamps_witness:
  "demo_store ''instance-1'' False = Inr (Some demo_status)
   \<and> sv_processing_duration
        (projr (get_orchestration_status demo_store demo_loads demo_fmt ''instance-1'' False))
       = Some ''42.5 seconds''"
proof -
  have a: "demo_store ''instance-1'' False = Inr (Some demo_status)"
    by (simp add: demo_store_def)
  from processing_duration_from_timestamps [where get_status = demo_store
      and instance_id = "''instance-1''" and include_history = False and st = demo_status
      and loads = demo_loads and fmt = demo_fmt, OF a] a
  show ?thesis
    by (auto simp: demo_status_def demo_fmt_def)
qed

text \<open>
  C9. For an identifier of an instance that does not exist, \<open>get_orchestration_status\<close>
  raises the \<open>ValueError\<close> saying that the instance was not found, and \<open>main\<close> turns it into
  a response for the caller (status code 400, with that message) instead of raising.
\<close>

theorem unknown_instance_not_found:
  assumes "\<forall>h. get_status instance_id h = Inr None"
    and "route_instance_id req = Some instance_id" and "instance_id \<noteq> []"
  shows "get_orchestration_status get_status loads fmt instance_id h
           = Inl (ValueError (''Orchestration instance '' @ [CHR 39] @ instance_id @ [CHR 39]
                              @ '' not found''))
     \<and> status_main (Inr get_status) loads fmt req
         = \<lparr>status_code = 400,
            body = MessageBody
              [(''error'', ''Bad Request''),
               (''message'', ''Orchestration instance '' @ [CHR 39] @ instance_id @ [CHR 39]
                             @ '' not found'')]\<rparr>"
proof -
  from assms(3) obtain c cs where i: "instance_id = c # cs"
    by (cases instance_id) simp_all
  have g: "get_orchestration_status get_status loads fmt instance_id h'
           = Inl (ValueError (''Orchestration instance '' @ [CHR 39] @ instance_id @ [CHR 39]
                              @ '' not found''))" for h'
    using assms(1) by (simp add: get_orchestration_status_def)
  show ?thesis
    using g assms(2) unfolding i
    by (simp add: status_main_def Let_def error_response_def)
qed

theorem unknown_instance_not_found_witness:
  "(\<forall>h. demo_store ''no-such-instance'' h = Inr None)
   \<and> status_main (Inr demo_store) demo_loads demo_fmt
        \<lparr>route_instance_id = Some ''no-such-instance'', param_video_name = None,
         param_include_history = None\<rparr>
       = \<lparr>status_code = 400,
          body = MessageBody
            [(''error'', ''Bad Request''),
             (''message'', ''Orchestration instance '' @ [CHR 39] @ ''no-such-instance''
                           @ [CHR 39] @ '' not found'')]\<rparr>"
proof -
  have a: "\<forall>h. demo_store ''no-such-instance'' h = Inr None"
    by (simp add: demo_store_def)
  from unknown_instance_not_found [where get_status = demo_store
      and instance_id = "''no-such-instance''" and loads = demo_loads and fmt = demo_fmt
      and req = "\<lparr>route_instance_id = Some ''no-such-instance'', param_video_name = None,
         param_include_history = None\<rparr>", OF a] a
  show ?thesis by simp
qed

end
